theory Spec2Isabelle
  imports Main
begin

section \<open>The tool catalog of the server (src/index.ts)\<close>

text \<open>
  A tool descriptor is the object literal of the \<^verbatim>\<open>tools\<close> array: a name, a
  description, an input schema (the accepted parameters, kept in declaration order, and
  the optional list of required ones) and optional annotations. An absent key of the
  literal is \<open>None\<close>.
\<close>

record property_schema =
  p_type :: string
  p_items :: "string option"
  p_enum :: "string list option"
  p_description :: string

record input_schema =
  s_type :: string
  s_properties :: "(string \<times> property_schema) list"
  s_required :: "string list option"

record tool_annotations =
  readOnly :: "bool option"
  dangerous :: "bool option"
  requiresConfirmation :: "bool option"

record Tool =
  tool_name :: string
  tool_description :: string
  tool_inputSchema :: input_schema
  tool_annotations :: "tool_annotations option"

definition tools :: "Tool list" where
  \<open>tools = [
  \<lparr>tool_name = ''git_status'',
   tool_description = ''Show the working tree status including modified, staged, and untracked files'',
   tool_inputSchema = \<lparr>s_type = ''object'', s_properties = [
      (''repoPath'', \<lparr>p_type = ''string'', p_items = None, p_enum = None,
        p_description = ''Path to git repository (defaults to current directory)''\<rparr>)],
     s_required = None\<rparr>,
   tool_annotations = Some \<lparr>readOnly = Some True, dangerous = None, requiresConfirmation = None\<rparr>\<rparr>,
  \<lparr>tool_name = ''git_init'',
   tool_description = ''Initialize a new git repository'',
   tool_inputSchema = \<lparr>s_type = ''object'', s_properties = [
      (''repoPath'', \<lparr>p_type = ''string'', p_items = None, p_enum = None,
        p_description = ''Path where to initialize the repository (defaults to current directory)''\<rparr>)],
     s_required = None\<rparr>,
   tool_annotations = None\<rparr>,
  \<lparr>tool_name = ''git_clone'',
   tool_description = ''Clone a repository from a URL'',
   tool_inputSchema = \<lparr>s_type = ''object'', s_properties = [
      (''url'', \<lparr>p_type = ''string'', p_items = None, p_enum = None,
        p_description = ''The URL of the repository to clone''\<rparr>),
      (''targetPath'', \<lparr>p_type = ''string'', p_items = None, p_enum = None,
        p_description = ''The path where to clone the repository''\<rparr>),
      (''repoPath'', \<lparr>p_type = ''string'', p_items = None, p_enum = None,
        p_description = ''Base path for the clone operation (defaults to current directory)''\<rparr>)],
     s_required = Some [''url'']\<rparr>,
   tool_annotations = None\<rparr>,
  \<lparr>tool_name = ''git_branch_list'',
   tool_description = ''List all branches in the repository'',
   tool_inputSchema = \<lparr>s_type = ''object'', s_properties = [
      (''repoPath'', \<lparr>p_type = ''string'', p_items = None, p_enum = None,
        p_description = ''Path to git repository (defaults to current directory)''\<rparr>)],
     s_required = None\<rparr>,
   tool_annotations = Some \<lparr>readOnly = Some True, dangerous = None, requiresConfirmation = None\<rparr>\<rparr>,
  \<lparr>tool_name = ''git_branch_create'',
   tool_description = ''Create a new branch'',
   tool_inputSchema = \<lparr>s_type = ''object'', s_properties = [
      (''branchName'', \<lparr>p_type = ''string'', p_items = None, p_enum = None,
        p_description = ''Name of the branch to create''\<rparr>),
      (''repoPath'', \<lparr>p_type = ''string'', p_items = None, p_enum = None,
        p_description = ''Path to git repository (defaults to current directory)''\<rparr>)],
     s_required = Some [''branchName'']\<rparr>,
   tool_annotations = None\<rparr>,
  \<lparr>tool_name = ''git_branch_delete'',
   tool_description = ''Delete a branch'',
   tool_inputSchema = \<lparr>s_type = ''object'', s_properties = [
      (''branchName'', \<lparr>p_type = ''string'', p_items = None, p_enum = None,
        p_description = ''Name of the branch to delete''\<rparr>),
      (''force'', \<lparr>p_type = ''boolean'', p_items = None, p_enum = None,
        p_description = ''Force delete the branch even if not fully merged''\<rparr>),
      (''repoPath'', \<lparr>p_type = ''string'', p_items = None, p_enum = None,
        p_description = ''Path to git repository (defaults to current directory)''\<rparr>)],
     s_required = Some [''branchName'']\<rparr>,
   tool_annotations = Some \<lparr>readOnly = None, dangerous = Some True, requiresConfirmation = Some True\<rparr>\<rparr>,
  \<lparr>tool_name = ''git_checkout'',
   tool_description = ''Switch branches or restore working tree files'',
   tool_inputSchema = \<lparr>s_type = ''object'', s_properties = [
      (''ref'', \<lparr>p_type = ''string'', p_items = None, p_enum = None,
        p_description = ''The branch name, tag, or commit to checkout''\<rparr>),
      (''createBranch'', \<lparr>p_type = ''boolean'', p_items = None, p_enum = None,
        p_description = ''Create a new branch before checking out''\<rparr>),
      (''repoPath'', \<lparr>p_type = ''string'', p_items = None, p_enum = None,
        p_description = ''Path to git repository (defaults to current directory)''\<rparr>)],
     s_required = Some [''ref'']\<rparr>,
   tool_annotations = None\<rparr>,
  \<lparr>tool_name = ''git_merge'',
   tool_description = ''Merge a branch into the current branch'',
   tool_inputSchema = \<lparr>s_type = ''object'', s_properties = [
      (''branch'', \<lparr>p_type = ''string'', p_items = None, p_enum = None,
        p_description = ''The branch to merge into the current branch''\<rparr>),
      (''noFastForward'', \<lparr>p_type = ''boolean'', p_items = None, p_enum = None,
        p_description = ''Create a merge commit even when the merge resolves as a fast-forward''\<rparr>),
      (''repoPath'', \<lparr>p_type = ''string'', p_items = None, p_enum = None,
        p_description = ''Path to git repository (defaults to current directory)''\<rparr>)],
     s_required = Some [''branch'']\<rparr>,
   tool_annotations = None\<rparr>,
  \<lparr>tool_name = ''git_diff'',
   tool_description = ''Show changes between commits, commit and working tree, etc. Supports commit ranges like HEAD...origin/master'',
   tool_inputSchema = \<lparr>s_type = ''object'', s_properties = [
      (''files'', \<lparr>p_type = ''array'', p_items = Some ''string'', p_enum = None,
        p_description = ''Specific files to show diff for (defaults to all files)''\<rparr>),
      (''cached'', \<lparr>p_type = ''boolean'', p_items = None, p_enum = None,
        p_description = ''Show diff of staged changes''\<rparr>),
      (''fromCommit'', \<lparr>p_type = ''string'', p_items = None, p_enum = None,
        p_description = ''Starting commit/branch for comparison (e.g., "HEAD", "main", commit hash)''\<rparr>),
      (''toCommit'', \<lparr>p_type = ''string'', p_items = None, p_enum = None,
        p_description = ''Ending commit/branch for comparison (e.g., "origin/master", commit hash). Defaults to working tree if not specified''\<rparr>),
      (''useThreeDotRange'', \<lparr>p_type = ''boolean'', p_items = None, p_enum = None,
        p_description = ''Use three-dot range (fromCommit...toCommit) to show changes on toCommit since it diverged from fromCommit''\<rparr>),
      (''repoPath'', \<lparr>p_type = ''string'', p_items = None, p_enum = None,
        p_description = ''Path to git repository (defaults to current directory)''\<rparr>)],
     s_required = None\<rparr>,
   tool_annotations = Some \<lparr>readOnly = Some True, dangerous = None, requiresConfirmation = None\<rparr>\<rparr>,
  \<lparr>tool_name = ''git_add'',
   tool_description = ''Add file contents to the staging area'',
   tool_inputSchema = \<lparr>s_type = ''object'', s_properties = [
      (''files'', \<lparr>p_type = ''array'', p_items = Some ''string'', p_enum = None,
        p_description = ''Files to stage (use ["."] to stage all files)''\<rparr>),
      (''repoPath'', \<lparr>p_type = ''string'', p_items = None, p_enum = None,
        p_description = ''Path to git repository (defaults to current directory)''\<rparr>)],
     s_required = Some [''files'']\<rparr>,
   tool_annotations = None\<rparr>,
  \<lparr>tool_name = ''git_reset'',
   tool_description = ''Unstage files or reset current HEAD to specified state'',
   tool_inputSchema = \<lparr>s_type = ''object'', s_properties = [
      (''files'', \<lparr>p_type = ''array'', p_items = Some ''string'', p_enum = None,
        p_description = ''Specific files to unstage (if not provided, resets to commit)''\<rparr>),
      (''mode'', \<lparr>p_type = ''string'', p_items = None, p_enum = Some [''soft'', ''mixed'', ''hard''],
        p_description = ''Reset mode: soft (keep changes staged), mixed (keep changes unstaged), hard (discard changes)''\<rparr>),
      (''commit'', \<lparr>p_type = ''string'', p_items = None, p_enum = None,
        p_description = ''Commit hash or reference to reset to (defaults to HEAD)''\<rparr>),
      (''repoPath'', \<lparr>p_type = ''string'', p_items = None, p_enum = None,
        p_description = ''Path to git repository (defaults to current directory)''\<rparr>)],
     s_required = None\<rparr>,
   tool_annotations = Some \<lparr>readOnly = None, dangerous = Some True, requiresConfirmation = Some True\<rparr>\<rparr>,
  \<lparr>tool_name = ''git_restore'',
   tool_description = ''Restore working tree files'',
   tool_inputSchema = \<lparr>s_type = ''object'', s_properties = [
      (''files'', \<lparr>p_type = ''array'', p_items = Some ''string'', p_enum = None,
        p_description = ''Files to restore''\<rparr>),
      (''staged'', \<lparr>p_type = ''boolean'', p_items = None, p_enum = None,
        p_description = ''Restore files in the staging area''\<rparr>),
      (''repoPath'', \<lparr>p_type = ''string'', p_items = None, p_enum = None,
        p_description = ''Path to git repository (defaults to current directory)''\<rparr>)],
     s_required = Some [''files'']\<rparr>,
   tool_annotations = Some \<lparr>readOnly = None, dangerous = Some True, requiresConfirmation = Some True\<rparr>\<rparr>,
  \<lparr>tool_name = ''git_commit'',
   tool_description = ''Record changes to the repository'',
   tool_inputSchema = \<lparr>s_type = ''object'', s_properties = [
      (''message'', \<lparr>p_type = ''string'', p_items = None, p_enum = None,
        p_description = ''Commit message''\<rparr>),
      (''files'', \<lparr>p_type = ''array'', p_items = Some ''string'', p_enum = None,
        p_description = ''Specific files to commit (will be staged automatically)''\<rparr>),
      (''amend'', \<lparr>p_type = ''boolean'', p_items = None, p_enum = None,
        p_description = ''Amend the previous commit''\<rparr>),
      (''repoPath'', \<lparr>p_type = ''string'', p_items = None, p_enum = None,
        p_description = ''Path to git repository (defaults to current directory)''\<rparr>)],
     s_required = Some [''message'']\<rparr>,
   tool_annotations = None\<rparr>,
  \<lparr>tool_name = ''git_log'',
   tool_description = ''Show commit logs'',
   tool_inputSchema = \<lparr>s_type = ''object'', s_properties = [
      (''maxCount'', \<lparr>p_type = ''number'', p_items = None, p_enum = None,
        p_description = ''Maximum number of commits to show''\<rparr>),
      (''file'', \<lparr>p_type = ''string'', p_items = None, p_enum = None,
        p_description = ''Show commits for a specific file''\<rparr>),
      (''repoPath'', \<lparr>p_type = ''string'', p_items = None, p_enum = None,
        p_description = ''Path to git repository (defaults to current directory)''\<rparr>)],
     s_required = None\<rparr>,
   tool_annotations = Some \<lparr>readOnly = Some True, dangerous = None, requiresConfirmation = None\<rparr>\<rparr>,
  \<lparr>tool_name = ''git_show'',
   tool_description = ''Show details of a commit'',
   tool_inputSchema = \<lparr>s_type = ''object'', s_properties = [
      (''ref'', \<lparr>p_type = ''string'', p_items = None, p_enum = None,
        p_description = ''The commit reference to show (defaults to HEAD)''\<rparr>),
      (''repoPath'', \<lparr>p_type = ''string'', p_items = None, p_enum = None,
        p_description = ''Path to git repository (defaults to current directory)''\<rparr>)],
     s_required = None\<rparr>,
   tool_annotations = Some \<lparr>readOnly = Some True, dangerous = None, requiresConfirmation = None\<rparr>\<rparr>,
  \<lparr>tool_name = ''git_rebase'',
   tool_description = ''Reapply commits on top of another base tip'',
   tool_inputSchema = \<lparr>s_type = ''object'', s_properties = [
      (''branch'', \<lparr>p_type = ''string'', p_items = None, p_enum = None,
        p_description = ''The branch to rebase onto''\<rparr>),
      (''interactive'', \<lparr>p_type = ''boolean'', p_items = None, p_enum = None,
        p_description = ''Start an interactive rebase''\<rparr>),
      (''repoPath'', \<lparr>p_type = ''string'', p_items = None, p_enum = None,
        p_description = ''Path to git repository (defaults to current directory)''\<rparr>)],
     s_required = Some [''branch'']\<rparr>,
   tool_annotations = Some \<lparr>readOnly = None, dangerous = Some True, requiresConfirmation = Some True\<rparr>\<rparr>,
  \<lparr>tool_name = ''git_stash'',
   tool_description = ''Stash the changes in a dirty working directory'',
   tool_inputSchema = \<lparr>s_type = ''object'', s_properties = [
      (''message'', \<lparr>p_type = ''string'', p_items = None, p_enum = None,
        p_description = ''Message to describe the stash''\<rparr>),
      (''includeUntracked'', \<lparr>p_type = ''boolean'', p_items = None, p_enum = None,
        p_description = ''Include untracked files in the stash''\<rparr>),
      (''repoPath'', \<lparr>p_type = ''string'', p_items = None, p_enum = None,
        p_description = ''Path to git repository (defaults to current directory)''\<rparr>)],
     s_required = None\<rparr>,
   tool_annotations = None\<rparr>,
  \<lparr>tool_name = ''git_stash_pop'',
   tool_description = ''Apply stashed changes and remove them from stash list'',
   tool_inputSchema = \<lparr>s_type = ''object'', s_properties = [
      (''index'', \<lparr>p_type = ''number'', p_items = None, p_enum = None,
        p_description = ''Index of the stash to pop (defaults to most recent)''\<rparr>),
      (''repoPath'', \<lparr>p_type = ''string'', p_items = None, p_enum = None,
        p_description = ''Path to git repository (defaults to current directory)''\<rparr>)],
     s_required = None\<rparr>,
   tool_annotations = None\<rparr>,
  \<lparr>tool_name = ''git_stash_list'',
   tool_description = ''List all stashed changes'',
   tool_inputSchema = \<lparr>s_type = ''object'', s_properties = [
      (''repoPath'', \<lparr>p_type = ''string'', p_items = None, p_enum = None,
        p_description = ''Path to git repository (defaults to current directory)''\<rparr>)],
     s_required = None\<rparr>,
   tool_annotations = Some \<lparr>readOnly = Some True, dangerous = None, requiresConfirmation = None\<rparr>\<rparr>,
  \<lparr>tool_name = ''git_cherry_pick'',
   tool_description = ''Apply the changes introduced by an existing commit'',
   tool_inputSchema = \<lparr>s_type = ''object'', s_properties = [
      (''commit'', \<lparr>p_type = ''string'', p_items = None, p_enum = None,
        p_description = ''The commit hash to cherry-pick''\<rparr>),
      (''repoPath'', \<lparr>p_type = ''string'', p_items = None, p_enum = None,
        p_description = ''Path to git repository (defaults to current directory)''\<rparr>)],
     s_required = Some [''commit'']\<rparr>,
   tool_annotations = None\<rparr>,
  \<lparr>tool_name = ''git_remote_list'',
   tool_description = ''List all configured remotes'',
   tool_inputSchema = \<lparr>s_type = ''object'', s_properties = [
      (''repoPath'', \<lparr>p_type = ''string'', p_items = None, p_enum = None,
        p_description = ''Path to git repository (defaults to current directory)''\<rparr>)],
     s_required = None\<rparr>,
   tool_annotations = Some \<lparr>readOnly = Some True, dangerous = None, requiresConfirmation = None\<rparr>\<rparr>,
  \<lparr>tool_name = ''git_remote_add'',
   tool_description = ''Add a new remote'',
   tool_inputSchema = \<lparr>s_type = ''object'', s_properties = [
      (''name'', \<lparr>p_type = ''string'', p_items = None, p_enum = None,
        p_description = ''Name of the remote''\<rparr>),
      (''url'', \<lparr>p_type = ''string'', p_items = None, p_enum = None,
        p_description = ''URL of the remote repository''\<rparr>),
      (''repoPath'', \<lparr>p_type = ''string'', p_items = None, p_enum = None,
        p_description = ''Path to git repository (defaults to current directory)''\<rparr>)],
     s_required = Some [''name'', ''url'']\<rparr>,
   tool_annotations = None\<rparr>,
  \<lparr>tool_name = ''git_fetch'',
   tool_description = ''Download objects and refs from another repository'',
   tool_inputSchema = \<lparr>s_type = ''object'', s_properties = [
      (''remote'', \<lparr>p_type = ''string'', p_items = None, p_enum = None,
        p_description = ''Name of the remote to fetch from''\<rparr>),
      (''branch'', \<lparr>p_type = ''string'', p_items = None, p_enum = None,
        p_description = ''Specific branch to fetch''\<rparr>),
      (''repoPath'', \<lparr>p_type = ''string'', p_items = None, p_enum = None,
        p_description = ''Path to git repository (defaults to current directory)''\<rparr>)],
     s_required = None\<rparr>,
   tool_annotations = Some \<lparr>readOnly = Some True, dangerous = None, requiresConfirmation = None\<rparr>\<rparr>,
  \<lparr>tool_name = ''git_pull'',
   tool_description = ''Fetch from and integrate with another repository or local branch'',
   tool_inputSchema = \<lparr>s_type = ''object'', s_properties = [
      (''remote'', \<lparr>p_type = ''string'', p_items = None, p_enum = None,
        p_description = ''Name of the remote to pull from''\<rparr>),
      (''branch'', \<lparr>p_type = ''string'', p_items = None, p_enum = None,
        p_description = ''Branch to pull''\<rparr>),
      (''rebase'', \<lparr>p_type = ''boolean'', p_items = None, p_enum = None,
        p_description = ''Rebase instead of merge''\<rparr>),
      (''repoPath'', \<lparr>p_type = ''string'', p_items = None, p_enum = None,
        p_description = ''Path to git repository (defaults to current directory)''\<rparr>)],
     s_required = None\<rparr>,
   tool_annotations = None\<rparr>,
  \<lparr>tool_name = ''git_push'',
   tool_description = ''Update remote refs along with associated objects'',
   tool_inputSchema = \<lparr>s_type = ''object'', s_properties = [
      (''remote'', \<lparr>p_type = ''string'', p_items = None, p_enum = None,
        p_description = ''Name of the remote to push to''\<rparr>),
      (''branch'', \<lparr>p_type = ''string'', p_items = None, p_enum = None,
        p_description = ''Branch to push''\<rparr>),
      (''force'', \<lparr>p_type = ''boolean'', p_items = None, p_enum = None,
        p_description = ''Force push''\<rparr>),
      (''setUpstream'', \<lparr>p_type = ''boolean'', p_items = None, p_enum = None,
        p_description = ''Set upstream tracking''\<rparr>),
      (''repoPath'', \<lparr>p_type = ''string'', p_items = None, p_enum = None,
        p_description = ''Path to git repository (defaults to current directory)''\<rparr>)],
     s_required = None\<rparr>,
   tool_annotations = Some \<lparr>readOnly = None, dangerous = Some True, requiresConfirmation = Some True\<rparr>\<rparr>]\<close>

text \<open>The parameters a descriptor names, and the ones it marks required.\<close>

definition accepted_params :: "Tool \<Rightarrow> string list" where
  "accepted_params t = map fst (s_properties (tool_inputSchema t))"

definition required_params :: "Tool \<Rightarrow> string list" where
  "required_params t = (case s_required (tool_inputSchema t) of None \<Rightarrow> [] | Some r \<Rightarrow> r)"

definition find_tool :: "string \<Rightarrow> Tool option" where
  "find_tool n = find (\<lambda>t. tool_name t = n) tools"


section \<open>JavaScript values\<close>

text \<open>
  An optional parameter of an argument object is an \<open>option\<close>: \<open>None\<close> is
  \<^verbatim>\<open>undefined\<close>. The operations test parameters by truthiness: \<^verbatim>\<open>undefined\<close>,
  the empty string, \<^verbatim>\<open>false\<close> and \<^verbatim>\<open>0\<close> are falsy. Numbers are modelled as
  integers (fractions and NaN are outside the model).
\<close>

definition truthy_string :: "string option \<Rightarrow> bool" where
  "truthy_string s = (case s of None \<Rightarrow> False | Some v \<Rightarrow> v \<noteq> [])"

definition truthy_bool :: "bool option \<Rightarrow> bool" where
  "truthy_bool b = (case b of None \<Rightarrow> False | Some v \<Rightarrow> v)"

definition truthy_number :: "int option \<Rightarrow> bool" where
  "truthy_number n = (case n of None \<Rightarrow> False | Some v \<Rightarrow> v \<noteq> 0)"

definition truthy_list :: "'a list option \<Rightarrow> bool" where
  \<comment> \<open>\<^verbatim>\<open>args.files && args.files.length > 0\<close>\<close>
  "truthy_list xs = (case xs of None \<Rightarrow> False | Some v \<Rightarrow> v \<noteq> [])"

definition or_string :: "string option \<Rightarrow> string \<Rightarrow> string" where
  \<comment> \<open>\<^verbatim>\<open>a || b\<close> on an optional string\<close>
  "or_string a b = (case a of None \<Rightarrow> b | Some v \<Rightarrow> if v = [] then b else v)"

text \<open>
  The length of an array in a template literal: its decimal numeral (a length is a
  natural number below \<open>2^32\<close>, which JavaScript prints digit by digit).
\<close>

definition digit :: "nat \<Rightarrow> char" where
  "digit d = ''0123456789'' ! (d mod 10)"

fun show_nat :: "nat \<Rightarrow> string" where
  "show_nat n = (if n < 10 then [digit n] else show_nat (n div 10) @ [digit n])"

declare show_nat.simps [simp del]

fun join :: "string \<Rightarrow> string list \<Rightarrow> string" where
  \<comment> \<open>\<^verbatim>\<open>xs.join(sep)\<close>\<close>
  "join sep [] = []"
| "join sep [x] = x"
| "join sep (x # y # ys) = x @ sep @ join sep (y # ys)"

section \<open>Asynchronous calls that may raise a fault\<close>

text \<open>
  An awaited call runs on the state of the outside world and either returns a result or
  raises a fault; a fault is the \<^verbatim>\<open>message\<close> of the raised \<^verbatim>\<open>Error\<close>. A
  \<^verbatim>\<open>try { ... } catch (error) { ... }\<close> block is \<open>try_catch\<close>.
\<close>

type_synonym ('w, 'a) io = "'w \<Rightarrow> (string + 'a) \<times> 'w"

definition ret :: "'a \<Rightarrow> ('w, 'a) io" where
  "ret x = (\<lambda>w. (Inr x, w))"

definition throw :: "string \<Rightarrow> ('w, 'a) io" where
  "throw e = (\<lambda>w. (Inl e, w))"

definition bind :: "('w, 'a) io \<Rightarrow> ('a \<Rightarrow> ('w, 'b) io) \<Rightarrow> ('w, 'b) io" where
  "bind m f = (\<lambda>w. case m w of (Inl e, w') \<Rightarrow> (Inl e, w') | (Inr x, w') \<Rightarrow> f x w')"

definition try_catch :: "('w, 'a) io \<Rightarrow> (string \<Rightarrow> ('w, 'a) io) \<Rightarrow> ('w, 'a) io" where
  "try_catch m h = (\<lambda>w. case m w of (Inl e, w') \<Rightarrow> h e w' | (Inr x, w') \<Rightarrow> (Inr x, w'))"

section \<open>The provider interface (providers/git-provider.ts)\<close>

record rename_entry =
  rn_from :: string
  rn_to :: string

record GitStatus =
  st_modified :: "string list"
  st_created :: "string list"
  st_deleted :: "string list"
  st_renamed :: "rename_entry list"
  st_conflicted :: "string list"
  st_not_added :: "string list"
  st_staged :: "string list"
  st_current :: "string option"
  st_tracking :: "string option"
  st_ahead :: int
  st_behind :: int
  st_isClean :: bool

record GitBranchInfo =
  bi_name :: string
  bi_commit :: string
  bi_label :: string
  bi_current :: bool

record GitBranchSummary =
  bs_detached :: bool
  bs_current :: string
  bs_all :: "string list"
  bs_branches :: "string \<Rightarrow> GitBranchInfo option"

record GitCommit =
  gc_hash :: string
  gc_date :: string
  gc_message :: string
  gc_author_name :: string
  gc_author_email :: string
  gc_body :: string
  gc_refs :: string

record GitLogResult =
  lr_all :: "GitCommit list"
  lr_total :: int
  lr_latest :: "GitCommit option"

record GitDiffFileResult =
  df_file :: string
  df_changes :: "int option"
  df_insertions :: "int option"
  df_deletions :: "int option"
  df_binary :: bool

record GitDiffSummary =
  ds_files :: "GitDiffFileResult list"
  ds_insertions :: int
  ds_deletions :: int
  ds_changed :: int

record change_summary =
  cs_changes :: int
  cs_insertions :: int
  cs_deletions :: int

record GitCommitResult =
  cr_commit :: string
  cr_branch :: string
  cr_author :: "string option"
  cr_summary :: change_summary

record GitMergeResult =
  mr_merges :: "string list"
  mr_conflicts :: "string list"
  mr_result :: string
  mr_summary :: change_summary

record GitStashEntry =
  se_hash :: string
  se_date :: string
  se_message :: string
  se_index :: int

record GitStashList =
  sl_all :: "GitStashEntry list"
  sl_total :: int
  sl_latest :: "GitStashEntry option"

record remote_refs =
  rr_fetch :: string
  rr_push :: string

record GitRemote =
  rm_name :: string
  rm_refs :: remote_refs

text \<open>
  The options object of \<^verbatim>\<open>log\<close>; the operations set no other key. The options
  objects of \<^verbatim>\<open>commit\<close> and \<^verbatim>\<open>pull\<close> map flags to \<^verbatim>\<open>null\<close>: they are the
  list of their keys.
\<close>

record GitLogOptions =
  lo_maxCount :: "int option"
  lo_file :: "string option"

type_synonym flag_options = "string list"


text \<open>
  The primitives of \<^verbatim>\<open>GitProvider\<close>, on a world of type \<open>'w\<close>. The two arities
  of \<^verbatim>\<open>branch\<close> are \<open>git_branch_summary\<close> (no argument) and \<open>git_branch\<close>; the
  arities of \<^verbatim>\<open>fetch\<close> are told apart by the arguments that are \<open>None\<close>.
\<close>

record 'w GitProvider =
  git_checkIsRepo :: "('w, bool) io"
  git_status :: "('w, GitStatus) io"
  git_init :: "('w, unit) io"
  git_clone :: "string \<Rightarrow> string \<Rightarrow> ('w, unit) io"
  git_branch_summary :: "('w, GitBranchSummary) io"
  git_branch :: "string list \<Rightarrow> ('w, unit) io"
  git_checkout :: "string \<Rightarrow> ('w, unit) io"
  git_checkoutBranch :: "string \<Rightarrow> string \<Rightarrow> ('w, unit) io"
  git_merge :: "string list \<Rightarrow> ('w, GitMergeResult) io"
  git_diff :: "string list \<Rightarrow> ('w, string) io"
  git_diffSummary :: "string list \<Rightarrow> ('w, GitDiffSummary) io"
  git_add :: "string list \<Rightarrow> ('w, unit) io"
  git_reset :: "string list \<Rightarrow> ('w, unit) io"
  git_raw :: "string list \<Rightarrow> ('w, string) io"
  git_commit :: "string \<Rightarrow> string list option \<Rightarrow> flag_options \<Rightarrow> ('w, GitCommitResult) io"
  git_log :: "GitLogOptions \<Rightarrow> ('w, GitLogResult) io"
  git_show :: "string list \<Rightarrow> ('w, string) io"
  git_rebase :: "string list \<Rightarrow> ('w, unit) io"
  git_stash :: "string list \<Rightarrow> ('w, unit) io"
  git_stashList :: "('w, GitStashList) io"
  git_getRemotes :: "bool \<Rightarrow> ('w, GitRemote list) io"
  git_addRemote :: "string \<Rightarrow> string \<Rightarrow> ('w, unit) io"
  git_fetch :: "string option \<Rightarrow> string option \<Rightarrow> ('w, unit) io"
  git_pull :: "string option \<Rightarrow> string option \<Rightarrow> flag_options \<Rightarrow> ('w, unit) io"
  git_push :: "string option \<Rightarrow> string option \<Rightarrow> string list \<Rightarrow> ('w, unit) io"

subsection \<open>Recording the calls a provider receives\<close>

text \<open>
  As \<^verbatim>\<open>MockGitProvider.recordCall\<close> does in the tests, \<open>recording p\<close> behaves as
  \<open>p\<close> and appends every call, with its arguments and its outcome, to a trace kept
  beside the world of \<open>p\<close>.
\<close>

datatype call =
    CheckIsRepo
  | Status
  | Init
  | Clone string string
  | BranchSummary
  | Branch "string list"
  | Checkout string
  | CheckoutBranch string string
  | Merge "string list"
  | Diff "string list"
  | DiffSummary "string list"
  | Add "string list"
  | Reset "string list"
  | Raw "string list"
  | Commit string "string list option" flag_options
  | Log GitLogOptions
  | Show "string list"
  | Rebase "string list"
  | Stash "string list"
  | StashList
  | GetRemotes bool
  | AddRemote string string
  | Fetch "string option" "string option"
  | Pull "string option" "string option" flag_options
  | Push "string option" "string option" "string list"

datatype retval =
    RVoid
  | RBool bool
  | RText string
  | RStatus GitStatus
  | RBranches GitBranchSummary
  | RMerge GitMergeResult
  | RDiffSummary GitDiffSummary
  | RCommit GitCommitResult
  | RLog GitLogResult
  | RStashes GitStashList
  | RRemotes "GitRemote list"

datatype outcome = Returned retval | Faulted string

type_synonym event = "call \<times> outcome"

definition logged :: "call \<Rightarrow> ('a \<Rightarrow> retval) \<Rightarrow> ('w, 'a) io \<Rightarrow> ('w \<times> event list, 'a) io" where
  "logged c tag m = (\<lambda>(w, tr). case m w of
      (Inl e, w') \<Rightarrow> (Inl e, (w', tr @ [(c, Faulted e)]))
    | (Inr x, w') \<Rightarrow> (Inr x, (w', tr @ [(c, Returned (tag x))])))"

definition recording :: "'w GitProvider \<Rightarrow> ('w \<times> event list) GitProvider" where
  "recording p = \<lparr>
     git_checkIsRepo = logged CheckIsRepo RBool (git_checkIsRepo p),
     git_status = logged Status RStatus (git_status p),
     git_init = logged Init (\<lambda>_. RVoid) (git_init p),
     git_clone = (\<lambda>url targetPath. logged (Clone url targetPath) (\<lambda>_. RVoid) (git_clone p url targetPath)),
     git_branch_summary = logged BranchSummary RBranches (git_branch_summary p),
     git_branch = (\<lambda>args. logged (Branch args) (\<lambda>_. RVoid) (git_branch p args)),
     git_checkout = (\<lambda>ref. logged (Checkout ref) (\<lambda>_. RVoid) (git_checkout p ref)),
     git_checkoutBranch = (\<lambda>branchName startPoint.
        logged (CheckoutBranch branchName startPoint) (\<lambda>_. RVoid) (git_checkoutBranch p branchName startPoint)),
     git_merge = (\<lambda>args. logged (Merge args) RMerge (git_merge p args)),
     git_diff = (\<lambda>args. logged (Diff args) RText (git_diff p args)),
     git_diffSummary = (\<lambda>args. logged (DiffSummary args) RDiffSummary (git_diffSummary p args)),
     git_add = (\<lambda>files. logged (Add files) (\<lambda>_. RVoid) (git_add p files)),
     git_reset = (\<lambda>args. logged (Reset args) (\<lambda>_. RVoid) (git_reset p args)),
     git_raw = (\<lambda>args. logged (Raw args) RText (git_raw p args)),
     git_commit = (\<lambda>msg files options.
        logged (Commit msg files options) RCommit (git_commit p msg files options)),
     git_log = (\<lambda>options. logged (Log options) RLog (git_log p options)),
     git_show = (\<lambda>args. logged (Show args) RText (git_show p args)),
     git_rebase = (\<lambda>args. logged (Rebase args) (\<lambda>_. RVoid) (git_rebase p args)),
     git_stash = (\<lambda>args. logged (Stash args) (\<lambda>_. RVoid) (git_stash p args)),
     git_stashList = logged StashList RStashes (git_stashList p),
     git_getRemotes = (\<lambda>verbose. logged (GetRemotes verbose) RRemotes (git_getRemotes p verbose)),
     git_addRemote = (\<lambda>n url. logged (AddRemote n url) (\<lambda>_. RVoid) (git_addRemote p n url)),
     git_fetch = (\<lambda>remote branch. logged (Fetch remote branch) (\<lambda>_. RVoid) (git_fetch p remote branch)),
     git_pull = (\<lambda>remote branch options.
        logged (Pull remote branch options) (\<lambda>_. RVoid) (git_pull p remote branch options)),
     git_push = (\<lambda>remote branch options.
        logged (Push remote branch options) (\<lambda>_. RVoid) (git_push p remote branch options))\<rparr>"

definition calls :: "event list \<Rightarrow> call list" where
  "calls tr = map fst tr"

section \<open>The response envelope\<close>

record StatusData =
  sd_modified :: "string list"
  sd_added :: "string list"
  sd_deleted :: "string list"
  sd_renamed :: "string list"
  sd_conflicted :: "string list"
  sd_notAdded :: "string list"
  sd_staged :: "string list"
  sd_current :: "string option"
  sd_tracking :: "string option"
  sd_ahead :: int
  sd_behind :: int
  sd_isClean :: bool

record BranchInfo =
  b_name :: string
  b_current :: bool
  b_commit :: string

record CommitInfo =
  ci_hash :: string
  ci_date :: string
  ci_message :: string
  ci_author_name :: string
  ci_author_email :: string

record CommitData =
  cd_commit :: string
  cd_summary :: change_summary

record DiffResult =
  dr_summary :: GitDiffSummary
  dr_diff :: string

text \<open>The diff data of the single-file implementation (types.ts: \<^verbatim>\<open>DiffData\<close>).\<close>

record DiffFileData =
  dfd_file :: string
  dfd_changes :: int
  dfd_insertions :: int
  dfd_deletions :: int

record DiffData =
  dd_files :: "DiffFileData list"
  dd_insertions :: int
  dd_deletions :: int
  dd_changed :: int

record DiffDataResult =
  ldr_summary :: DiffData
  ldr_diff :: string

text \<open>
  \<^verbatim>\<open>GitOperationResponse\<close>: \<open>data\<close> is \<^verbatim>\<open>any\<close> in the source; here it is the
  sum of the values the operations put there. An envelope literal without a
  \<^verbatim>\<open>data\<close> key has \<open>data = None\<close>.
\<close>

datatype payload =
    StatusPayload StatusData
  | BranchListPayload "BranchInfo list"
  | MergePayload GitMergeResult
  | DiffPayload DiffResult
  | DiffDataPayload DiffDataResult
  | CommitPayload CommitData
  | LogPayload "CommitInfo list"
  | TextPayload string
  | StashListPayload "GitStashEntry list"
  | RemoteListPayload "GitRemote list"

record envelope =
  success :: bool
  message :: string
  data :: "payload option"

definition failed :: "string \<Rightarrow> string \<Rightarrow> ('w, envelope) io" where
  \<comment> \<open>\<^verbatim>\<open>return { success: false, message: `<prefix>${error.message}` }\<close>\<close>
  "failed prefix error = ret \<lparr>success = False, message = prefix @ error, data = None\<rparr>"

section \<open>The provider factory (providers/simple-git.ts)\<close>

text \<open>
  The Node runtime the code reads: \<^verbatim>\<open>process.cwd()\<close>, \<^verbatim>\<open>path.basename\<close> and the
  text a template literal gives a number (\<^verbatim>\<open>Number.prototype.toString\<close>; the model has
  the integer-valued numbers). They belong to Node, not to this repository, so they are
  parameters.
\<close>

record node_runtime =
  process_cwd :: string
  path_basename :: "string \<Rightarrow> string \<Rightarrow> string"
  number_toString :: "int \<Rightarrow> string"

type_synonym 'w GitProviderFactory = "string option \<Rightarrow> bool option \<Rightarrow> ('w, 'w GitProvider) io"

text \<open>
  \<open>simpleGit\<close> binds a provider to a base path. \<open>required\<close> defaults to
  \<^verbatim>\<open>true\<close>; \<^verbatim>\<open>required && !await git.checkIsRepo()\<close> calls the check only when
  \<open>required\<close> holds.
\<close>

definition getGit :: "node_runtime \<Rightarrow> (string \<Rightarrow> 'w GitProvider) \<Rightarrow> 'w GitProviderFactory" where
  "getGit node simpleGit repoPath required =
     (let basePath = or_string repoPath (process_cwd node);
          git = simpleGit basePath
      in if (case required of None \<Rightarrow> True | Some r \<Rightarrow> r)
         then bind (git_checkIsRepo git) (\<lambda>isRepo.
                if \<not> isRepo then throw (''Not a git repository: '' @ basePath) else ret git)
         else ret git)"

section \<open>The operation groups (git-tools/*.ts)\<close>

text \<open>
  Each operation takes the factory its group was configured with and the fields of its
  argument object, in the order of the source's type annotation. \<open>str\<close> is the string
  a parameter contributes to a template literal, \<open>list_of\<close> the elements of an optional
  array that was tested to be present, \<open>quoted s\<close> is \<open>s\<close> between single quotes.
\<close>

definition str :: "string option \<Rightarrow> string" where
  "str s = (case s of None \<Rightarrow> ''undefined'' | Some v \<Rightarrow> v)"

definition list_of :: "'a list option \<Rightarrow> 'a list" where
  "list_of xs = (case xs of None \<Rightarrow> [] | Some v \<Rightarrow> v)"

definition quoted :: "string \<Rightarrow> string" where
  "quoted s = [CHR 0x27] @ s @ [CHR 0x27]"

subsection \<open>Repository management (repository-management.ts)\<close>

definition gitStatus :: "'w GitProviderFactory \<Rightarrow> string option \<Rightarrow> ('w, envelope) io" where
  "gitStatus factory repoPath = try_catch
     (bind (factory repoPath None) (\<lambda>git.
      bind (git_status git) (\<lambda>status.
      ret \<lparr>success = True,
           message = (if st_isClean status then ''Working tree clean'' else ''Working tree has changes''),
           data = Some (StatusPayload \<lparr>
             sd_modified = st_modified status,
             sd_added = st_created status,
             sd_deleted = st_deleted status,
             sd_renamed = map (\<lambda>r. rn_from r @ '' -> '' @ rn_to r) (st_renamed status),
             sd_conflicted = st_conflicted status,
             sd_notAdded = st_not_added status,
             sd_staged = st_staged status,
             sd_current = st_current status,
             sd_tracking = st_tracking status,
             sd_ahead = st_ahead status,
             sd_behind = st_behind status,
             sd_isClean = st_isClean status\<rparr>)\<rparr>)))
     (failed ''Failed to get status: '')"

definition gitInit :: "node_runtime \<Rightarrow> 'w GitProviderFactory \<Rightarrow> string option \<Rightarrow> ('w, envelope) io" where
  "gitInit node factory repoPath = try_catch
     (bind (factory repoPath (Some False)) (\<lambda>git.
      bind (git_init git) (\<lambda>_.
      ret \<lparr>success = True,
           message = ''Initialized empty Git repository in '' @ or_string repoPath (process_cwd node),
           data = None\<rparr>)))
     (failed ''Failed to initialize repository: '')"

definition gitClone ::
  "node_runtime \<Rightarrow> 'w GitProviderFactory \<Rightarrow> string \<Rightarrow> string option \<Rightarrow> string option \<Rightarrow> ('w, envelope) io" where
  "gitClone node factory url targetPath repoPath = try_catch
     (bind (factory repoPath (Some False)) (\<lambda>git.
      let target = or_string targetPath (path_basename node url ''.git'') in
      bind (git_clone git url target) (\<lambda>_.
      ret \<lparr>success = True,
           message = ''Cloned repository from '' @ url @ '' to '' @ target,
           data = None\<rparr>)))
     (failed ''Failed to clone repository: '')"

subsection \<open>Branch operations (branch-operations.ts)\<close>

definition gitBranchList :: "'w GitProviderFactory \<Rightarrow> string option \<Rightarrow> ('w, envelope) io" where
  "gitBranchList factory repoPath = try_catch
     (bind (factory repoPath None) (\<lambda>git.
      bind (git_branch_summary git) (\<lambda>branches.
      let branchData = map (\<lambda>name. \<lparr>
            b_name = name,
            b_current = (name = bs_current branches),
            b_commit = (case bs_branches branches name of
                          None \<Rightarrow> [] | Some info \<Rightarrow> bi_commit info)\<rparr>) (bs_all branches) in
      ret \<lparr>success = True,
           message = ''Found '' @ show_nat (length branchData) @ '' branches'',
           data = Some (BranchListPayload branchData)\<rparr>)))
     (failed ''Failed to list branches: '')"

definition gitBranchCreate :: "'w GitProviderFactory \<Rightarrow> string \<Rightarrow> string option \<Rightarrow> ('w, envelope) io" where
  "gitBranchCreate factory branchName repoPath = try_catch
     (bind (factory repoPath None) (\<lambda>git.
      bind (git_branch git [branchName]) (\<lambda>_.
      ret \<lparr>success = True,
           message = ''Created branch '' @ quoted branchName,
           data = None\<rparr>)))
     (failed ''Failed to create branch: '')"

definition gitBranchDelete ::
  "'w GitProviderFactory \<Rightarrow> string \<Rightarrow> bool option \<Rightarrow> string option \<Rightarrow> ('w, envelope) io" where
  "gitBranchDelete factory branchName force repoPath = try_catch
     (bind (factory repoPath None) (\<lambda>git.
      let deleteFlag = (if truthy_bool force then ''-D'' else ''-d'') in
      bind (git_branch git [deleteFlag, branchName]) (\<lambda>_.
      ret \<lparr>success = True,
           message = ''Deleted branch '' @ quoted branchName,
           data = None\<rparr>)))
     (failed ''Failed to delete branch: '')"

definition gitCheckout ::
  "'w GitProviderFactory \<Rightarrow> string \<Rightarrow> bool option \<Rightarrow> string option \<Rightarrow> ('w, envelope) io" where
  "gitCheckout factory ref createBranch repoPath = try_catch
     (bind (factory repoPath None) (\<lambda>git.
      bind (if truthy_bool createBranch then git_checkoutBranch git ref ''HEAD''
            else git_checkout git ref) (\<lambda>_.
      ret \<lparr>success = True,
           message = (if truthy_bool createBranch
                      then ''Created and switched to branch '' @ quoted ref
                      else ''Switched to '' @ quoted ref),
           data = None\<rparr>)))
     (failed ''Failed to checkout: '')"

definition gitMerge ::
  "'w GitProviderFactory \<Rightarrow> string \<Rightarrow> bool option \<Rightarrow> string option \<Rightarrow> ('w, envelope) io" where
  "gitMerge factory branch noFastForward repoPath = try_catch
     (bind (factory repoPath None) (\<lambda>git.
      let options = (if truthy_bool noFastForward then [''--no-ff''] else []) in
      bind (git_merge git (options @ [branch])) (\<lambda>result.
      ret \<lparr>success = True,
           message = ''Merged branch '' @ quoted branch,
           data = Some (MergePayload result)\<rparr>)))
     (failed ''Failed to merge: '')"

subsection \<open>File operations (file-operations.ts)\<close>

datatype reset_mode = Soft | Mixed | Hard

definition mode_name :: "reset_mode \<Rightarrow> string" where
  "mode_name m = (case m of Soft \<Rightarrow> ''soft'' | Mixed \<Rightarrow> ''mixed'' | Hard \<Rightarrow> ''hard'')"

text \<open>The argument list \<^verbatim>\<open>diffArgs\<close> that \<^verbatim>\<open>gitDiff\<close> builds by successive pushes.\<close>

definition diffArgs ::
  "string list option \<Rightarrow> bool option \<Rightarrow> string option \<Rightarrow> string option \<Rightarrow> bool option \<Rightarrow> string list" where
  "diffArgs files cached fromCommit toCommit useThreeDotRange =
     (if truthy_bool cached then [''--cached''] else [])
     @ (if truthy_string fromCommit \<or> truthy_string toCommit then
          (if truthy_string fromCommit \<and> truthy_string toCommit then
             (let rangeOperator = (if truthy_bool useThreeDotRange then ''...'' else ''..'')
              in [str fromCommit @ rangeOperator @ str toCommit])
           else if truthy_string fromCommit then [str fromCommit]
           else if truthy_string toCommit then [str toCommit]
           else [])
        else [])
     @ (if truthy_list files then ''--'' # list_of files else [])"

definition diffMessage ::
  "string list option \<Rightarrow> bool option \<Rightarrow> string option \<Rightarrow> string option \<Rightarrow> bool option \<Rightarrow> string" where
  "diffMessage files cached fromCommit toCommit useThreeDotRange =
     (if truthy_string fromCommit \<and> truthy_string toCommit then
        (let rangeOperator = (if truthy_bool useThreeDotRange then ''...'' else ''..'')
         in ''Diff for '' @ str fromCommit @ rangeOperator @ str toCommit)
      else if truthy_string fromCommit then ''Diff from '' @ str fromCommit @ '' to working tree''
      else if truthy_string toCommit then ''Diff to '' @ str toCommit
      else if truthy_bool cached then ''Diff for staged changes''
      else ''Diff for ''
           @ (case files of None \<Rightarrow> ''all''
              | Some fs \<Rightarrow> if length fs = 0 then ''all'' else show_nat (length fs))
           @ '' file(s)'')"

definition gitDiff ::
  "'w GitProviderFactory \<Rightarrow> string list option \<Rightarrow> bool option \<Rightarrow> string option \<Rightarrow> string option
     \<Rightarrow> bool option \<Rightarrow> string option \<Rightarrow> ('w, envelope) io" where
  "gitDiff factory files cached fromCommit toCommit useThreeDotRange repoPath = try_catch
     (bind (factory repoPath None) (\<lambda>git.
      let args = diffArgs files cached fromCommit toCommit useThreeDotRange in
      bind (git_diff git args) (\<lambda>diff.
      let summaryArgs = filter (\<lambda>arg. arg \<noteq> ''--'') args in
      bind (git_diffSummary git summaryArgs) (\<lambda>diffSummary.
      let summary = \<lparr>
            ds_files = map (\<lambda>f. \<lparr>
               df_file = df_file f,
               df_changes = Some (case df_changes f of None \<Rightarrow> 0 | Some c \<Rightarrow> c),
               df_insertions = Some (case df_insertions f of None \<Rightarrow> 0 | Some c \<Rightarrow> c),
               df_deletions = Some (case df_deletions f of None \<Rightarrow> 0 | Some c \<Rightarrow> c),
               df_binary = df_binary f\<rparr>) (ds_files diffSummary),
            ds_insertions = ds_insertions diffSummary,
            ds_deletions = ds_deletions diffSummary,
            ds_changed = ds_changed diffSummary\<rparr> in
      ret \<lparr>success = True,
           message = diffMessage files cached fromCommit toCommit useThreeDotRange,
           data = Some (DiffPayload \<lparr>dr_summary = summary, dr_diff = diff\<rparr>)\<rparr>))))
     (failed ''Failed to get diff: '')"

definition gitAdd :: "'w GitProviderFactory \<Rightarrow> string list \<Rightarrow> string option \<Rightarrow> ('w, envelope) io" where
  "gitAdd factory files repoPath = try_catch
     (bind (factory repoPath None) (\<lambda>git.
      bind (git_add git files) (\<lambda>_.
      ret \<lparr>success = True,
           message = ''Staged '' @ show_nat (length files) @ '' file(s): '' @ join '', '' files,
           data = None\<rparr>)))
     (failed ''Failed to stage files: '')"

definition gitReset ::
  "'w GitProviderFactory \<Rightarrow> string list option \<Rightarrow> reset_mode option \<Rightarrow> string option \<Rightarrow> string option
     \<Rightarrow> ('w, envelope) io" where
  "gitReset factory files mode commit repoPath = try_catch
     (bind (factory repoPath None) (\<lambda>git.
      if truthy_list files then
        (let ref = or_string commit ''HEAD'' in
         bind (git_reset git (ref # list_of files)) (\<lambda>_.
         ret \<lparr>success = True,
              message = ''Unstaged '' @ show_nat (length (list_of files)) @ '' file(s): ''
                        @ join '', '' (list_of files),
              data = None\<rparr>))
      else
        (let mode' = (case mode of None \<Rightarrow> ''mixed'' | Some m \<Rightarrow> mode_name m);
             target = or_string commit ''HEAD'' in
         bind (git_reset git [''--'' @ mode', target]) (\<lambda>_.
         ret \<lparr>success = True,
              message = ''Reset to '' @ target @ '' ('' @ mode' @ '' mode)'',
              data = None\<rparr>))))
     (failed ''Failed to reset: '')"

definition gitRestore ::
  "'w GitProviderFactory \<Rightarrow> string list \<Rightarrow> bool option \<Rightarrow> string option \<Rightarrow> ('w, envelope) io" where
  "gitRestore factory files staged repoPath = try_catch
     (bind (factory repoPath None) (\<lambda>git.
      let options = (if truthy_bool staged then ''--staged'' # files else files) in
      bind (git_raw git (''restore'' # options)) (\<lambda>_.
      ret \<lparr>success = True,
           message = (if truthy_bool staged
                      then ''Restored '' @ show_nat (length files) @ '' file(s) from staging''
                      else ''Restored '' @ show_nat (length files) @ '' file(s) from HEAD''),
           data = None\<rparr>)))
     (failed ''Failed to restore files: '')"

subsection \<open>Commit operations (commit-operations.ts)\<close>

definition gitCommit ::
  "'w GitProviderFactory \<Rightarrow> string \<Rightarrow> string list option \<Rightarrow> bool option \<Rightarrow> string option
     \<Rightarrow> ('w, envelope) io" where
  "gitCommit factory msg files amend repoPath = try_catch
     (bind (factory repoPath None) (\<lambda>git.
      let options = (if truthy_bool amend then [''--amend''] else []) in
      bind (if truthy_list files
            then bind (git_add git (list_of files)) (\<lambda>_. git_commit git msg None options)
            else git_commit git msg None options) (\<lambda>result.
      ret \<lparr>success = True,
           message = ''Committed changes: '' @ cr_commit result,
           data = Some (CommitPayload \<lparr>cd_commit = cr_commit result, cd_summary = cr_summary result\<rparr>)\<rparr>)))
     (failed ''Failed to commit: '')"

definition gitLog ::
  "'w GitProviderFactory \<Rightarrow> int option \<Rightarrow> string option \<Rightarrow> string option \<Rightarrow> ('w, envelope) io" where
  "gitLog factory maxCount file repoPath = try_catch
     (bind (factory repoPath None) (\<lambda>git.
      let options = \<lparr>lo_maxCount = (if truthy_number maxCount then maxCount else None),
                     lo_file = (if truthy_string file then file else None)\<rparr> in
      bind (git_log git options) (\<lambda>log.
      let commits = map (\<lambda>commit. \<lparr>
            ci_hash = gc_hash commit,
            ci_date = gc_date commit,
            ci_message = gc_message commit,
            ci_author_name = gc_author_name commit,
            ci_author_email = gc_author_email commit\<rparr>) (lr_all log) in
      ret \<lparr>success = True,
           message = ''Retrieved '' @ show_nat (length commits) @ '' commit(s)'',
           data = Some (LogPayload commits)\<rparr>)))
     (failed ''Failed to get log: '')"

definition gitShow :: "'w GitProviderFactory \<Rightarrow> string option \<Rightarrow> string option \<Rightarrow> ('w, envelope) io" where
  "gitShow factory ref repoPath = try_catch
     (bind (factory repoPath None) (\<lambda>git.
      let ref' = or_string ref ''HEAD'' in
      bind (git_show git [ref']) (\<lambda>shown.
      ret \<lparr>success = True,
           message = ''Details for '' @ ref',
           data = Some (TextPayload shown)\<rparr>)))
     (failed ''Failed to show commit: '')"

subsection \<open>Advanced operations (advanced-operations.ts)\<close>

definition gitRebase ::
  "'w GitProviderFactory \<Rightarrow> string \<Rightarrow> bool option \<Rightarrow> string option \<Rightarrow> ('w, envelope) io" where
  "gitRebase factory branch interactive repoPath = try_catch
     (bind (factory repoPath None) (\<lambda>git.
      let options = (if truthy_bool interactive then [''-i'', branch] else [branch]) in
      bind (git_rebase git options) (\<lambda>_.
      ret \<lparr>success = True,
           message = ''Rebased onto '' @ quoted branch,
           data = None\<rparr>)))
     (failed ''Failed to rebase: '')"

definition gitStash ::
  "'w GitProviderFactory \<Rightarrow> string option \<Rightarrow> bool option \<Rightarrow> string option \<Rightarrow> ('w, envelope) io" where
  "gitStash factory msg includeUntracked repoPath = try_catch
     (bind (factory repoPath None) (\<lambda>git.
      let options = [''push'']
            @ (if truthy_bool includeUntracked then [''-u''] else [])
            @ (if truthy_string msg then [''-m'', str msg] else []) in
      bind (git_stash git options) (\<lambda>_.
      ret \<lparr>success = True,
           message = (if truthy_string msg then ''Stashed changes: '' @ str msg else ''Stashed changes''),
           data = None\<rparr>)))
     (failed ''Failed to stash: '')"

text \<open>
  \<^verbatim>\<open>args.index !== undefined\<close> tells a present index, 0 included, from an absent one.
  The template literal puts the index, as the runtime prints it, in braces after
  \<^verbatim>\<open>stash@\<close>.
\<close>

definition gitStashPop ::
  "node_runtime \<Rightarrow> 'w GitProviderFactory \<Rightarrow> int option \<Rightarrow> string option \<Rightarrow> ('w, envelope) io" where
  "gitStashPop node factory index repoPath = try_catch
     (bind (factory repoPath None) (\<lambda>git.
      let options = [''pop'']
            @ (case index of None \<Rightarrow> []
               | Some i \<Rightarrow> [''stash@'' @ ''{'' @ number_toString node i @ ''}'']) in
      bind (git_stash git options) (\<lambda>_.
      ret \<lparr>success = True,
           message = (case index of None \<Rightarrow> ''Applied most recent stash''
                      | Some i \<Rightarrow> ''Applied stash@'' @ ''{'' @ number_toString node i @ ''}''),
           data = None\<rparr>)))
     (failed ''Failed to pop stash: '')"

definition gitStashList :: "node_runtime \<Rightarrow> 'w GitProviderFactory \<Rightarrow> string option \<Rightarrow> ('w, envelope) io" where
  "gitStashList node factory repoPath = try_catch
     (bind (factory repoPath None) (\<lambda>git.
      bind (git_stashList git) (\<lambda>stashList.
      ret \<lparr>success = True,
           message = ''Found '' @ number_toString node (sl_total stashList) @ '' stash(es)'',
           data = Some (StashListPayload (sl_all stashList))\<rparr>)))
     (failed ''Failed to list stashes: '')"

definition gitCherryPick :: "'w GitProviderFactory \<Rightarrow> string \<Rightarrow> string option \<Rightarrow> ('w, envelope) io" where
  "gitCherryPick factory commit repoPath = try_catch
     (bind (factory repoPath None) (\<lambda>git.
      bind (git_raw git [''cherry-pick'', commit]) (\<lambda>_.
      ret \<lparr>success = True,
           message = ''Cherry-picked commit '' @ commit,
           data = None\<rparr>)))
     (failed ''Failed to cherry-pick: '')"

subsection \<open>Remote operations (remote-operations.ts)\<close>

definition gitRemoteList :: "'w GitProviderFactory \<Rightarrow> string option \<Rightarrow> ('w, envelope) io" where
  "gitRemoteList factory repoPath = try_catch
     (bind (factory repoPath None) (\<lambda>git.
      bind (git_getRemotes git True) (\<lambda>remotes.
      let remoteData = map (\<lambda>remote. \<lparr>
            rm_name = rm_name remote,
            rm_refs = \<lparr>rr_fetch = or_string (Some (rr_fetch (rm_refs remote))) [],
                       rr_push = or_string (Some (rr_push (rm_refs remote))) []\<rparr>\<rparr>) remotes in
      ret \<lparr>success = True,
           message = ''Found '' @ show_nat (length remoteData) @ '' remote(s)'',
           data = Some (RemoteListPayload remoteData)\<rparr>)))
     (failed ''Failed to list remotes: '')"

definition gitRemoteAdd ::
  "'w GitProviderFactory \<Rightarrow> string \<Rightarrow> string \<Rightarrow> string option \<Rightarrow> ('w, envelope) io" where
  "gitRemoteAdd factory remoteName url repoPath = try_catch
     (bind (factory repoPath None) (\<lambda>git.
      bind (git_addRemote git remoteName url) (\<lambda>_.
      ret \<lparr>success = True,
           message = ''Added remote '' @ quoted remoteName @ '' ('' @ url @ '')'',
           data = None\<rparr>)))
     (failed ''Failed to add remote: '')"

definition gitFetch ::
  "'w GitProviderFactory \<Rightarrow> string option \<Rightarrow> string option \<Rightarrow> string option \<Rightarrow> ('w, envelope) io" where
  "gitFetch factory remote branch repoPath = try_catch
     (bind (factory repoPath None) (\<lambda>git.
      bind (if truthy_string remote \<and> truthy_string branch then git_fetch git remote branch
            else if truthy_string remote then git_fetch git remote None
            else git_fetch git None None) (\<lambda>_.
      ret \<lparr>success = True,
           message = (if truthy_string remote
                      then ''Fetched from '' @ quoted (str remote)
                           @ (if truthy_string branch then '' ('' @ str branch @ '')'' else [])
                      else ''Fetched from all remotes''),
           data = None\<rparr>)))
     (failed ''Failed to fetch: '')"

definition gitPull ::
  "'w GitProviderFactory \<Rightarrow> string option \<Rightarrow> string option \<Rightarrow> bool option \<Rightarrow> string option
     \<Rightarrow> ('w, envelope) io" where
  "gitPull factory remote branch rebase repoPath = try_catch
     (bind (factory repoPath None) (\<lambda>git.
      let options = (if truthy_bool rebase then [''--rebase''] else []) in
      bind (git_pull git remote branch options) (\<lambda>_.
      ret \<lparr>success = True,
           message = ''Pulled from '' @ or_string remote ''origin''
                     @ (if truthy_string branch then ''/'' @ str branch else []),
           data = None\<rparr>)))
     (failed ''Failed to pull: '')"

definition gitPush ::
  "'w GitProviderFactory \<Rightarrow> string option \<Rightarrow> string option \<Rightarrow> bool option \<Rightarrow> bool option
     \<Rightarrow> string option \<Rightarrow> ('w, envelope) io" where
  "gitPush factory remote branch force setUpstream repoPath = try_catch
     (bind (factory repoPath None) (\<lambda>git.
      let options = (if truthy_bool force then [''--force''] else [])
            @ (if truthy_bool setUpstream then [''--set-upstream''] else []) in
      bind (git_push git remote branch options) (\<lambda>_.
      ret \<lparr>success = True,
           message = ''Pushed to '' @ or_string remote ''origin''
                     @ (if truthy_string branch then ''/'' @ str branch else []),
           data = None\<rparr>)))
     (failed ''Failed to push: '')"

section \<open>The single-file implementation the server dispatches to (git-tools.ts)\<close>

text \<open>
  \<^verbatim>\<open>index.ts\<close> imports \<^verbatim>\<open>./git-tools.js\<close>: the operations as functions of one
  module, each checking the repository with \<open>verifyGitRepo\<close> before it binds a client.
  The client is the same set of primitives, so it is a \<open>GitProvider\<close> here as well.
\<close>

definition gitTools_getGit :: "node_runtime \<Rightarrow> (string \<Rightarrow> 'w GitProvider) \<Rightarrow> string option \<Rightarrow> 'w GitProvider" where
  "gitTools_getGit node simpleGit repoPath =
     (let basePath = or_string repoPath (process_cwd node) in simpleGit basePath)"

definition verifyGitRepo ::
  "node_runtime \<Rightarrow> (string \<Rightarrow> 'w GitProvider) \<Rightarrow> string option \<Rightarrow> ('w, envelope option) io" where
  "verifyGitRepo node simpleGit repoPath = try_catch
     (let git = gitTools_getGit node simpleGit repoPath in
      bind (git_checkIsRepo git) (\<lambda>isRepo.
      if \<not> isRepo
      then ret (Some \<lparr>success = False,
                      message = ''Not a git repository: '' @ or_string repoPath (process_cwd node),
                      data = None\<rparr>)
      else ret None))
     (\<lambda>error. ret (Some \<lparr>success = False,
                          message = ''Error verifying repository: '' @ error,
                          data = None\<rparr>))"

definition gitTools_gitStatus :: "node_runtime \<Rightarrow> (string \<Rightarrow> 'w GitProvider) \<Rightarrow> string option \<Rightarrow> ('w, envelope) io" where
  "gitTools_gitStatus node simpleGit repoPath = try_catch
     (bind (verifyGitRepo node simpleGit repoPath) (\<lambda>error.
      case error of Some e \<Rightarrow> ret e | None \<Rightarrow>
     (let git = gitTools_getGit node simpleGit repoPath in
      bind (git_status git) (\<lambda>status.
      ret \<lparr>success = True,
           message = (if st_isClean status then ''Working tree clean'' else ''Working tree has changes''),
           data = Some (StatusPayload \<lparr>
             sd_modified = st_modified status,
             sd_added = st_created status,
             sd_deleted = st_deleted status,
             sd_renamed = map (\<lambda>r. rn_from r @ '' -> '' @ rn_to r) (st_renamed status),
             sd_conflicted = st_conflicted status,
             sd_notAdded = st_not_added status,
             sd_staged = st_staged status,
             sd_current = st_current status,
             sd_tracking = st_tracking status,
             sd_ahead = st_ahead status,
             sd_behind = st_behind status,
             sd_isClean = st_isClean status\<rparr>)\<rparr>))))
     (failed ''Failed to get status: '')"

definition gitTools_gitInit :: "node_runtime \<Rightarrow> (string \<Rightarrow> 'w GitProvider) \<Rightarrow> string option \<Rightarrow> ('w, envelope) io" where
  "gitTools_gitInit node simpleGit repoPath = try_catch
     (let git = gitTools_getGit node simpleGit repoPath in
      bind (git_init git) (\<lambda>_.
      ret \<lparr>success = True,
           message = ''Initialized empty Git repository in '' @ or_string repoPath (process_cwd node),
           data = None\<rparr>))
     (failed ''Failed to initialize repository: '')"

definition gitTools_gitClone ::
  "node_runtime \<Rightarrow> (string \<Rightarrow> 'w GitProvider) \<Rightarrow> string \<Rightarrow> string option \<Rightarrow> string option \<Rightarrow> ('w, envelope) io" where
  "gitTools_gitClone node simpleGit url targetPath repoPath = try_catch
     (let git = gitTools_getGit node simpleGit repoPath in
      let target = or_string targetPath (path_basename node url ''.git'') in
      bind (git_clone git url target) (\<lambda>_.
      ret \<lparr>success = True,
           message = ''Cloned repository from '' @ url @ '' to '' @ target,
           data = None\<rparr>))
     (failed ''Failed to clone repository: '')"

definition gitTools_gitBranchList :: "node_runtime \<Rightarrow> (string \<Rightarrow> 'w GitProvider) \<Rightarrow> string option \<Rightarrow> ('w, envelope) io" where
  "gitTools_gitBranchList node simpleGit repoPath = try_catch
     (bind (verifyGitRepo node simpleGit repoPath) (\<lambda>error.
      case error of Some e \<Rightarrow> ret e | None \<Rightarrow>
     (let git = gitTools_getGit node simpleGit repoPath in
      bind (git_branch_summary git) (\<lambda>branches.
      let branchData = map (\<lambda>name. \<lparr>
            b_name = name,
            b_current = (name = bs_current branches),
            b_commit = (case bs_branches branches name of
                          None \<Rightarrow> [] | Some info \<Rightarrow> bi_commit info)\<rparr>) (bs_all branches) in
      ret \<lparr>success = True,
           message = ''Found '' @ show_nat (length branchData) @ '' branches'',
           data = Some (BranchListPayload branchData)\<rparr>))))
     (failed ''Failed to list branches: '')"

definition gitTools_gitBranchCreate :: "node_runtime \<Rightarrow> (string \<Rightarrow> 'w GitProvider) \<Rightarrow> string \<Rightarrow> string option \<Rightarrow> ('w, envelope) io" where
  "gitTools_gitBranchCreate node simpleGit branchName repoPath = try_catch
     (bind (verifyGitRepo node simpleGit repoPath) (\<lambda>error.
      case error of Some e \<Rightarrow> ret e | None \<Rightarrow>
     (let git = gitTools_getGit node simpleGit repoPath in
      bind (git_branch git [branchName]) (\<lambda>_.
      ret \<lparr>success = True,
           message = ''Created branch '' @ quoted branchName,
           data = None\<rparr>))))
     (failed ''Failed to create branch: '')"

definition gitTools_gitBranchDelete ::
  "node_runtime \<Rightarrow> (string \<Rightarrow> 'w GitProvider) \<Rightarrow> string \<Rightarrow> bool option \<Rightarrow> string option \<Rightarrow> ('w, envelope) io" where
  "gitTools_gitBranchDelete node simpleGit branchName force repoPath = try_catch
     (bind (verifyGitRepo node simpleGit repoPath) (\<lambda>error.
      case error of Some e \<Rightarrow> ret e | None \<Rightarrow>
     (let git = gitTools_getGit node simpleGit repoPath in
      let deleteFlag = (if truthy_bool force then ''-D'' else ''-d'') in
      bind (git_branch git [deleteFlag, branchName]) (\<lambda>_.
      ret \<lparr>success = True,
           message = ''Deleted branch '' @ quoted branchName,
           data = None\<rparr>))))
     (failed ''Failed to delete branch: '')"

definition gitTools_gitCheckout ::
  "node_runtime \<Rightarrow> (string \<Rightarrow> 'w GitProvider) \<Rightarrow> string \<Rightarrow> bool option \<Rightarrow> string option \<Rightarrow> ('w, envelope) io" where
  "gitTools_gitCheckout node simpleGit ref createBranch repoPath = try_catch
     (bind (verifyGitRepo node simpleGit repoPath) (\<lambda>error.
      case error of Some e \<Rightarrow> ret e | None \<Rightarrow>
     (let git = gitTools_getGit node simpleGit repoPath in
      bind (if truthy_bool createBranch then git_checkoutBranch git ref ''HEAD''
            else git_checkout git ref) (\<lambda>_.
      ret \<lparr>success = True,
           message = (if truthy_bool createBranch
                      then ''Created and switched to branch '' @ quoted ref
                      else ''Switched to '' @ quoted ref),
           data = None\<rparr>))))
     (failed ''Failed to checkout: '')"

definition gitTools_gitMerge ::
  "node_runtime \<Rightarrow> (string \<Rightarrow> 'w GitProvider) \<Rightarrow> string \<Rightarrow> bool option \<Rightarrow> string option \<Rightarrow> ('w, envelope) io" where
  "gitTools_gitMerge node simpleGit branch noFastForward repoPath = try_catch
     (bind (verifyGitRepo node simpleGit repoPath) (\<lambda>error.
      case error of Some e \<Rightarrow> ret e | None \<Rightarrow>
     (let git = gitTools_getGit node simpleGit repoPath in
      let options = (if truthy_bool noFastForward then [''--no-ff''] else []) in
      bind (git_merge git (options @ [branch])) (\<lambda>result.
      ret \<lparr>success = True,
           message = ''Merged branch '' @ quoted branch,
           data = Some (MergePayload result)\<rparr>))))
     (failed ''Failed to merge: '')"


definition gitTools_gitDiff ::
  "node_runtime \<Rightarrow> (string \<Rightarrow> 'w GitProvider) \<Rightarrow> string list option \<Rightarrow> bool option \<Rightarrow> string option
     \<Rightarrow> ('w, envelope) io" where
  "gitTools_gitDiff node simpleGit files cached repoPath = try_catch
     (bind (verifyGitRepo node simpleGit repoPath) (\<lambda>error.
      case error of Some e \<Rightarrow> ret e | None \<Rightarrow>
     (let git = gitTools_getGit node simpleGit repoPath in
      bind (if truthy_bool cached then git_diff git (''--cached'' # list_of files)
            else git_diff git (list_of files)) (\<lambda>diff.
      bind (git_diffSummary git (if truthy_bool cached then [''--cached''] else [])) (\<lambda>diffSummary.
      let summary = \<lparr>
            dd_files = map (\<lambda>f. \<lparr>
               dfd_file = df_file f,
               dfd_changes = (case df_changes f of None \<Rightarrow> 0 | Some c \<Rightarrow> c),
               dfd_insertions = (case df_insertions f of None \<Rightarrow> 0 | Some c \<Rightarrow> c),
               dfd_deletions = (case df_deletions f of None \<Rightarrow> 0 | Some c \<Rightarrow> c)\<rparr>) (ds_files diffSummary),
            dd_insertions = ds_insertions diffSummary,
            dd_deletions = ds_deletions diffSummary,
            dd_changed = ds_changed diffSummary\<rparr> in
      ret \<lparr>success = True,
           message = ''Diff for ''
             @ (case files of None \<Rightarrow> ''all''
                | Some fs \<Rightarrow> if length fs = 0 then ''all'' else show_nat (length fs))
             @ '' file(s)'',
           data = Some (DiffDataPayload \<lparr>ldr_summary = summary, ldr_diff = diff\<rparr>)\<rparr>)))))
     (failed ''Failed to get diff: '')"

definition gitTools_gitAdd :: "node_runtime \<Rightarrow> (string \<Rightarrow> 'w GitProvider) \<Rightarrow> string list \<Rightarrow> string option \<Rightarrow> ('w, envelope) io" where
  "gitTools_gitAdd node simpleGit files repoPath = try_catch
     (bind (verifyGitRepo node simpleGit repoPath) (\<lambda>error.
      case error of Some e \<Rightarrow> ret e | None \<Rightarrow>
     (let git = gitTools_getGit node simpleGit repoPath in
      bind (git_add git files) (\<lambda>_.
      ret \<lparr>success = True,
           message = ''Staged '' @ show_nat (length files) @ '' file(s): '' @ join '', '' files,
           data = None\<rparr>))))
     (failed ''Failed to stage files: '')"

definition gitTools_gitReset ::
  "node_runtime \<Rightarrow> (string \<Rightarrow> 'w GitProvider) \<Rightarrow> string list option \<Rightarrow> reset_mode option \<Rightarrow> string option \<Rightarrow> string option
     \<Rightarrow> ('w, envelope) io" where
  "gitTools_gitReset node simpleGit files mode commit repoPath = try_catch
     (bind (verifyGitRepo node simpleGit repoPath) (\<lambda>error.
      case error of Some e \<Rightarrow> ret e | None \<Rightarrow>
     (let git = gitTools_getGit node simpleGit repoPath in
      if truthy_list files then
        (let ref = or_string commit ''HEAD'' in
         bind (git_reset git (ref # list_of files)) (\<lambda>_.
         ret \<lparr>success = True,
              message = ''Unstaged '' @ show_nat (length (list_of files)) @ '' file(s): ''
                        @ join '', '' (list_of files),
              data = None\<rparr>))
      else
        (let mode' = (case mode of None \<Rightarrow> ''mixed'' | Some m \<Rightarrow> mode_name m);
             target = or_string commit ''HEAD'' in
         bind (git_reset git [''--'' @ mode', target]) (\<lambda>_.
         ret \<lparr>success = True,
              message = ''Reset to '' @ target @ '' ('' @ mode' @ '' mode)'',
              data = None\<rparr>)))))
     (failed ''Failed to reset: '')"

definition gitTools_gitRestore ::
  "node_runtime \<Rightarrow> (string \<Rightarrow> 'w GitProvider) \<Rightarrow> string list \<Rightarrow> bool option \<Rightarrow> string option \<Rightarrow> ('w, envelope) io" where
  "gitTools_gitRestore node simpleGit files staged repoPath = try_catch
     (bind (verifyGitRepo node simpleGit repoPath) (\<lambda>error.
      case error of Some e \<Rightarrow> ret e | None \<Rightarrow>
     (let git = gitTools_getGit node simpleGit repoPath in
      let options = (if truthy_bool staged then ''--staged'' # files else files) in
      bind (git_raw git (''restore'' # options)) (\<lambda>_.
      ret \<lparr>success = True,
           message = (if truthy_bool staged
                      then ''Restored '' @ show_nat (length files) @ '' file(s) from staging''
                      else ''Restored '' @ show_nat (length files) @ '' file(s) from HEAD''),
           data = None\<rparr>))))
     (failed ''Failed to restore files: '')"

definition gitTools_gitCommit ::
  "node_runtime \<Rightarrow> (string \<Rightarrow> 'w GitProvider) \<Rightarrow> string \<Rightarrow> string list option \<Rightarrow> bool option \<Rightarrow> string option
     \<Rightarrow> ('w, envelope) io" where
  "gitTools_gitCommit node simpleGit msg files amend repoPath = try_catch
     (bind (verifyGitRepo node simpleGit repoPath) (\<lambda>error.
      case error of Some e \<Rightarrow> ret e | None \<Rightarrow>
     (let git = gitTools_getGit node simpleGit repoPath in
      let options = (if truthy_bool amend then [''--amend''] else []) in
      bind (if truthy_list files
            then bind (git_add git (list_of files)) (\<lambda>_. git_commit git msg None options)
            else git_commit git msg None options) (\<lambda>result.
      ret \<lparr>success = True,
           message = ''Committed changes: '' @ cr_commit result,
           data = Some (CommitPayload \<lparr>cd_commit = cr_commit result, cd_summary = cr_summary result\<rparr>)\<rparr>))))
     (failed ''Failed to commit: '')"

definition gitTools_gitLog ::
  "node_runtime \<Rightarrow> (string \<Rightarrow> 'w GitProvider) \<Rightarrow> int option \<Rightarrow> string option \<Rightarrow> string option \<Rightarrow> ('w, envelope) io" where
  "gitTools_gitLog node simpleGit maxCount file repoPath = try_catch
     (bind (verifyGitRepo node simpleGit repoPath) (\<lambda>error.
      case error of Some e \<Rightarrow> ret e | None \<Rightarrow>
     (let git = gitTools_getGit node simpleGit repoPath in
      let options = \<lparr>lo_maxCount = (if truthy_number maxCount then maxCount else None),
                     lo_file = (if truthy_string file then file else None)\<rparr> in
      bind (git_log git options) (\<lambda>log.
      let commits = map (\<lambda>commit. \<lparr>
            ci_hash = gc_hash commit,
            ci_date = gc_date commit,
            ci_message = gc_message commit,
            ci_author_name = gc_author_name commit,
            ci_author_email = gc_author_email commit\<rparr>) (lr_all log) in
      ret \<lparr>success = True,
           message = ''Retrieved '' @ show_nat (length commits) @ '' commit(s)'',
           data = Some (LogPayload commits)\<rparr>))))
     (failed ''Failed to get log: '')"

definition gitTools_gitShow :: "node_runtime \<Rightarrow> (string \<Rightarrow> 'w GitProvider) \<Rightarrow> string option \<Rightarrow> string option \<Rightarrow> ('w, envelope) io" where
  "gitTools_gitShow node simpleGit ref repoPath = try_catch
     (bind (verifyGitRepo node simpleGit repoPath) (\<lambda>error.
      case error of Some e \<Rightarrow> ret e | None \<Rightarrow>
     (let git = gitTools_getGit node simpleGit repoPath in
      let ref' = or_string ref ''HEAD'' in
      bind (git_show git [ref']) (\<lambda>shown.
      ret \<lparr>success = True,
           message = ''Details for '' @ ref',
           data = Some (TextPayload shown)\<rparr>))))
     (failed ''Failed to show commit: '')"

definition gitTools_gitRebase ::
  "node_runtime \<Rightarrow> (string \<Rightarrow> 'w GitProvider) \<Rightarrow> string \<Rightarrow> bool option \<Rightarrow> string option \<Rightarrow> ('w, envelope) io" where
  "gitTools_gitRebase node simpleGit branch interactive repoPath = try_catch
     (bind (verifyGitRepo node simpleGit repoPath) (\<lambda>error.
      case error of Some e \<Rightarrow> ret e | None \<Rightarrow>
     (let git = gitTools_getGit node simpleGit repoPath in
      let options = (if truthy_bool interactive then [''-i'', branch] else [branch]) in
      bind (git_rebase git options) (\<lambda>_.
      ret \<lparr>success = True,
           message = ''Rebased onto '' @ quoted branch,
           data = None\<rparr>))))
     (failed ''Failed to rebase: '')"

definition gitTools_gitStash ::
  "node_runtime \<Rightarrow> (string \<Rightarrow> 'w GitProvider) \<Rightarrow> string option \<Rightarrow> bool option \<Rightarrow> string option \<Rightarrow> ('w, envelope) io" where
  "gitTools_gitStash node simpleGit msg includeUntracked repoPath = try_catch
     (bind (verifyGitRepo node simpleGit repoPath) (\<lambda>error.
      case error of Some e \<Rightarrow> ret e | None \<Rightarrow>
     (let git = gitTools_getGit node simpleGit repoPath in
      let options = [''push'']
            @ (if truthy_bool includeUntracked then [''-u''] else [])
            @ (if truthy_string msg then [''-m'', str msg] else []) in
      bind (git_stash git options) (\<lambda>_.
      ret \<lparr>success = True,
           message = (if truthy_string msg then ''Stashed changes: '' @ str msg else ''Stashed changes''),
           data = None\<rparr>))))
     (failed ''Failed to stash: '')"

definition gitTools_gitStashPop :: "node_runtime \<Rightarrow> (string \<Rightarrow> 'w GitProvider) \<Rightarrow> int option \<Rightarrow> string option \<Rightarrow> ('w, envelope) io" where
  "gitTools_gitStashPop node simpleGit index repoPath = try_catch
     (bind (verifyGitRepo node simpleGit repoPath) (\<lambda>error.
      case error of Some e \<Rightarrow> ret e | None \<Rightarrow>
     (let git = gitTools_getGit node simpleGit repoPath in
      let options = [''pop'']
            @ (case index of None \<Rightarrow> []
               | Some i \<Rightarrow> [''stash@'' @ ''{'' @ number_toString node i @ ''}'']) in
      bind (git_stash git options) (\<lambda>_.
      ret \<lparr>success = True,
           message = (case index of None \<Rightarrow> ''Applied most recent stash''
                      | Some i \<Rightarrow> ''Applied stash@'' @ ''{'' @ number_toString node i @ ''}''),
           data = None\<rparr>))))
     (failed ''Failed to pop stash: '')"

definition gitTools_gitStashList :: "node_runtime \<Rightarrow> (string \<Rightarrow> 'w GitProvider) \<Rightarrow> string option \<Rightarrow> ('w, envelope) io" where
  "gitTools_gitStashList node simpleGit repoPath = try_catch
     (bind (verifyGitRepo node simpleGit repoPath) (\<lambda>error.
      case error of Some e \<Rightarrow> ret e | None \<Rightarrow>
     (let git = gitTools_getGit node simpleGit repoPath in
      bind (git_stashList git) (\<lambda>stashList.
      ret \<lparr>success = True,
           message = ''Found '' @ number_toString node (sl_total stashList) @ '' stash(es)'',
           data = Some (StashListPayload (sl_all stashList))\<rparr>))))
     (failed ''Failed to list stashes: '')"

definition gitTools_gitCherryPick :: "node_runtime \<Rightarrow> (string \<Rightarrow> 'w GitProvider) \<Rightarrow> string \<Rightarrow> string option \<Rightarrow> ('w, envelope) io" where
  "gitTools_gitCherryPick node simpleGit commit repoPath = try_catch
     (bind (verifyGitRepo node simpleGit repoPath) (\<lambda>error.
      case error of Some e \<Rightarrow> ret e | None \<Rightarrow>
     (let git = gitTools_getGit node simpleGit repoPath in
      bind (git_raw git [''cherry-pick'', commit]) (\<lambda>_.
      ret \<lparr>success = True,
           message = ''Cherry-picked commit '' @ commit,
           data = None\<rparr>))))
     (failed ''Failed to cherry-pick: '')"

definition gitTools_gitRemoteList :: "node_runtime \<Rightarrow> (string \<Rightarrow> 'w GitProvider) \<Rightarrow> string option \<Rightarrow> ('w, envelope) io" where
  "gitTools_gitRemoteList node simpleGit repoPath = try_catch
     (bind (verifyGitRepo node simpleGit repoPath) (\<lambda>error.
      case error of Some e \<Rightarrow> ret e | None \<Rightarrow>
     (let git = gitTools_getGit node simpleGit repoPath in
      bind (git_getRemotes git True) (\<lambda>remotes.
      let remoteData = map (\<lambda>remote. \<lparr>
            rm_name = rm_name remote,
            rm_refs = \<lparr>rr_fetch = or_string (Some (rr_fetch (rm_refs remote))) [],
                       rr_push = or_string (Some (rr_push (rm_refs remote))) []\<rparr>\<rparr>) remotes in
      ret \<lparr>success = True,
           message = ''Found '' @ show_nat (length remoteData) @ '' remote(s)'',
           data = Some (RemoteListPayload remoteData)\<rparr>))))
     (failed ''Failed to list remotes: '')"

definition gitTools_gitRemoteAdd ::
  "node_runtime \<Rightarrow> (string \<Rightarrow> 'w GitProvider) \<Rightarrow> string \<Rightarrow> string \<Rightarrow> string option \<Rightarrow> ('w, envelope) io" where
  "gitTools_gitRemoteAdd node simpleGit remoteName url repoPath = try_catch
     (bind (verifyGitRepo node simpleGit repoPath) (\<lambda>error.
      case error of Some e \<Rightarrow> ret e | None \<Rightarrow>
     (let git = gitTools_getGit node simpleGit repoPath in
      bind (git_addRemote git remoteName url) (\<lambda>_.
      ret \<lparr>success = True,
           message = ''Added remote '' @ quoted remoteName @ '' ('' @ url @ '')'',
           data = None\<rparr>))))
     (failed ''Failed to add remote: '')"

definition gitTools_gitFetch ::
  "node_runtime \<Rightarrow> (string \<Rightarrow> 'w GitProvider) \<Rightarrow> string option \<Rightarrow> string option \<Rightarrow> string option \<Rightarrow> ('w, envelope) io" where
  "gitTools_gitFetch node simpleGit remote branch repoPath = try_catch
     (bind (verifyGitRepo node simpleGit repoPath) (\<lambda>error.
      case error of Some e \<Rightarrow> ret e | None \<Rightarrow>
     (let git = gitTools_getGit node simpleGit repoPath in
      bind (if truthy_string remote \<and> truthy_string branch then git_fetch git remote branch
            else if truthy_string remote then git_fetch git remote None
            else git_fetch git None None) (\<lambda>_.
      ret \<lparr>success = True,
           message = (if truthy_string remote
                      then ''Fetched from '' @ quoted (str remote)
                           @ (if truthy_string branch then '' ('' @ str branch @ '')'' else [])
                      else ''Fetched from all remotes''),
           data = None\<rparr>))))
     (failed ''Failed to fetch: '')"

definition gitTools_gitPull ::
  "node_runtime \<Rightarrow> (string \<Rightarrow> 'w GitProvider) \<Rightarrow> string option \<Rightarrow> string option \<Rightarrow> bool option \<Rightarrow> string option
     \<Rightarrow> ('w, envelope) io" where
  "gitTools_gitPull node simpleGit remote branch rebase repoPath = try_catch
     (bind (verifyGitRepo node simpleGit repoPath) (\<lambda>error.
      case error of Some e \<Rightarrow> ret e | None \<Rightarrow>
     (let git = gitTools_getGit node simpleGit repoPath in
      let options = (if truthy_bool rebase then [''--rebase''] else []) in
      bind (git_pull git remote branch options) (\<lambda>_.
      ret \<lparr>success = True,
           message = ''Pulled from '' @ or_string remote ''origin''
                     @ (if truthy_string branch then ''/'' @ str branch else []),
           data = None\<rparr>))))
     (failed ''Failed to pull: '')"

definition gitTools_gitPush ::
  "node_runtime \<Rightarrow> (string \<Rightarrow> 'w GitProvider) \<Rightarrow> string option \<Rightarrow> string option \<Rightarrow> bool option \<Rightarrow> bool option
     \<Rightarrow> string option \<Rightarrow> ('w, envelope) io" where
  "gitTools_gitPush node simpleGit remote branch force setUpstream repoPath = try_catch
     (bind (verifyGitRepo node simpleGit repoPath) (\<lambda>error.
      case error of Some e \<Rightarrow> ret e | None \<Rightarrow>
     (let git = gitTools_getGit node simpleGit repoPath in
      let options = (if truthy_bool force then [''--force''] else [])
            @ (if truthy_bool setUpstream then [''--set-upstream''] else []) in
      bind (git_push git remote branch options) (\<lambda>_.
      ret \<lparr>success = True,
           message = ''Pushed to '' @ or_string remote ''origin''
                     @ (if truthy_string branch then ''/'' @ str branch else []),
           data = None\<rparr>))))
     (failed ''Failed to push: '')"

section \<open>Calls of operations\<close>

text \<open>
  A call of one of the 25 operations with its argument object: the operation and the
  fields of the object, in the order of the operation's parameters. \<open>invoke\<close> runs the
  call on the operation groups configured with a factory, \<open>gitTools_invoke\<close> on the
  single-file implementation (whose \<^verbatim>\<open>gitDiff\<close> reads neither commit parameter).
\<close>

datatype operation =
    OpStatus "string option"
  | OpInit "string option"
  | OpClone string "string option" "string option"
  | OpBranchList "string option"
  | OpBranchCreate string "string option"
  | OpBranchDelete string "bool option" "string option"
  | OpCheckout string "bool option" "string option"
  | OpMerge string "bool option" "string option"
  | OpDiff "string list option" "bool option" "string option" "string option" "bool option" "string option"
  | OpAdd "string list" "string option"
  | OpReset "string list option" "reset_mode option" "string option" "string option"
  | OpRestore "string list" "bool option" "string option"
  | OpCommit string "string list option" "bool option" "string option"
  | OpLog "int option" "string option" "string option"
  | OpShow "string option" "string option"
  | OpRebase string "bool option" "string option"
  | OpStash "string option" "bool option" "string option"
  | OpStashPop "int option" "string option"
  | OpStashList "string option"
  | OpCherryPick string "string option"
  | OpRemoteList "string option"
  | OpRemoteAdd string string "string option"
  | OpFetch "string option" "string option" "string option"
  | OpPull "string option" "string option" "bool option" "string option"
  | OpPush "string option" "string option" "bool option" "bool option" "string option"

primrec invoke :: "node_runtime \<Rightarrow> 'w GitProviderFactory \<Rightarrow> operation \<Rightarrow> ('w, envelope) io" where
  "invoke node factory (OpStatus repoPath) = gitStatus factory repoPath"
| "invoke node factory (OpInit repoPath) = gitInit node factory repoPath"
| "invoke node factory (OpClone url targetPath repoPath) = gitClone node factory url targetPath repoPath"
| "invoke node factory (OpBranchList repoPath) = gitBranchList factory repoPath"
| "invoke node factory (OpBranchCreate branchName repoPath) = gitBranchCreate factory branchName repoPath"
| "invoke node factory (OpBranchDelete branchName force repoPath) = gitBranchDelete factory branchName force repoPath"
| "invoke node factory (OpCheckout ref createBranch repoPath) = gitCheckout factory ref createBranch repoPath"
| "invoke node factory (OpMerge branch noFastForward repoPath) = gitMerge factory branch noFastForward repoPath"
| "invoke node factory (OpDiff files cached fromCommit toCommit useThreeDotRange repoPath) =
     gitDiff factory files cached fromCommit toCommit useThreeDotRange repoPath"
| "invoke node factory (OpAdd files repoPath) = gitAdd factory files repoPath"
| "invoke node factory (OpReset files mode commit repoPath) = gitReset factory files mode commit repoPath"
| "invoke node factory (OpRestore files staged repoPath) = gitRestore factory files staged repoPath"
| "invoke node factory (OpCommit msg files amend repoPath) = gitCommit factory msg files amend repoPath"
| "invoke node factory (OpLog maxCount file repoPath) = gitLog factory maxCount file repoPath"
| "invoke node factory (OpShow ref repoPath) = gitShow factory ref repoPath"
| "invoke node factory (OpRebase branch interactive repoPath) = gitRebase factory branch interactive repoPath"
| "invoke node factory (OpStash msg includeUntracked repoPath) = gitStash factory msg includeUntracked repoPath"
| "invoke node factory (OpStashPop index repoPath) = gitStashPop node factory index repoPath"
| "invoke node factory (OpStashList repoPath) = gitStashList node factory repoPath"
| "invoke node factory (OpCherryPick commit repoPath) = gitCherryPick factory commit repoPath"
| "invoke node factory (OpRemoteList repoPath) = gitRemoteList factory repoPath"
| "invoke node factory (OpRemoteAdd remoteName url repoPath) = gitRemoteAdd factory remoteName url repoPath"
| "invoke node factory (OpFetch remote branch repoPath) = gitFetch factory remote branch repoPath"
| "invoke node factory (OpPull remote branch rebase repoPath) = gitPull factory remote branch rebase repoPath"
| "invoke node factory (OpPush remote branch force setUpstream repoPath) =
     gitPush factory remote branch force setUpstream repoPath"


text \<open>The literal with which the \<^verbatim>\<open>catch\<close> block of an operation starts its message.\<close>

primrec failure_prefix :: "operation \<Rightarrow> string" where
  "failure_prefix (OpStatus _) = ''Failed to get status: ''"
| "failure_prefix (OpInit _) = ''Failed to initialize repository: ''"
| "failure_prefix (OpClone _ _ _) = ''Failed to clone repository: ''"
| "failure_prefix (OpBranchList _) = ''Failed to list branches: ''"
| "failure_prefix (OpBranchCreate _ _) = ''Failed to create branch: ''"
| "failure_prefix (OpBranchDelete _ _ _) = ''Failed to delete branch: ''"
| "failure_prefix (OpCheckout _ _ _) = ''Failed to checkout: ''"
| "failure_prefix (OpMerge _ _ _) = ''Failed to merge: ''"
| "failure_prefix (OpDiff _ _ _ _ _ _) = ''Failed to get diff: ''"
| "failure_prefix (OpAdd _ _) = ''Failed to stage files: ''"
| "failure_prefix (OpReset _ _ _ _) = ''Failed to reset: ''"
| "failure_prefix (OpRestore _ _ _) = ''Failed to restore files: ''"
| "failure_prefix (OpCommit _ _ _ _) = ''Failed to commit: ''"
| "failure_prefix (OpLog _ _ _) = ''Failed to get log: ''"
| "failure_prefix (OpShow _ _) = ''Failed to show commit: ''"
| "failure_prefix (OpRebase _ _ _) = ''Failed to rebase: ''"
| "failure_prefix (OpStash _ _ _) = ''Failed to stash: ''"
| "failure_prefix (OpStashPop _ _) = ''Failed to pop stash: ''"
| "failure_prefix (OpStashList _) = ''Failed to list stashes: ''"
| "failure_prefix (OpCherryPick _ _) = ''Failed to cherry-pick: ''"
| "failure_prefix (OpRemoteList _) = ''Failed to list remotes: ''"
| "failure_prefix (OpRemoteAdd _ _ _) = ''Failed to add remote: ''"
| "failure_prefix (OpFetch _ _ _) = ''Failed to fetch: ''"
| "failure_prefix (OpPull _ _ _ _) = ''Failed to pull: ''"
| "failure_prefix (OpPush _ _ _ _ _) = ''Failed to push: ''"

text \<open>The \<^verbatim>\<open>repoPath\<close> of a call, and whether its operation leaves \<^verbatim>\<open>required\<close>
  at its default (all but \<^verbatim>\<open>gitInit\<close> and \<^verbatim>\<open>gitClone\<close>, which pass \<^verbatim>\<open>false\<close>).\<close>

primrec repoPath_of :: "operation \<Rightarrow> string option" where
  "repoPath_of (OpStatus r) = r"
| "repoPath_of (OpInit r) = r"
| "repoPath_of (OpClone _ _ r) = r"
| "repoPath_of (OpBranchList r) = r"
| "repoPath_of (OpBranchCreate _ r) = r"
| "repoPath_of (OpBranchDelete _ _ r) = r"
| "repoPath_of (OpCheckout _ _ r) = r"
| "repoPath_of (OpMerge _ _ r) = r"
| "repoPath_of (OpDiff _ _ _ _ _ r) = r"
| "repoPath_of (OpAdd _ r) = r"
| "repoPath_of (OpReset _ _ _ r) = r"
| "repoPath_of (OpRestore _ _ r) = r"
| "repoPath_of (OpCommit _ _ _ r) = r"
| "repoPath_of (OpLog _ _ r) = r"
| "repoPath_of (OpShow _ r) = r"
| "repoPath_of (OpRebase _ _ r) = r"
| "repoPath_of (OpStash _ _ r) = r"
| "repoPath_of (OpStashPop _ r) = r"
| "repoPath_of (OpStashList r) = r"
| "repoPath_of (OpCherryPick _ r) = r"
| "repoPath_of (OpRemoteList r) = r"
| "repoPath_of (OpRemoteAdd _ _ r) = r"
| "repoPath_of (OpFetch _ _ r) = r"
| "repoPath_of (OpPull _ _ _ r) = r"
| "repoPath_of (OpPush _ _ _ _ r) = r"

definition repository_required :: "operation \<Rightarrow> bool" where
  "repository_required c = (case c of OpInit _ \<Rightarrow> False | OpClone _ _ _ \<Rightarrow> False | _ \<Rightarrow> True)"

section \<open>The dispatcher (index.ts)\<close>

text \<open>
  The argument bag of a request: every parameter some descriptor of the catalog names,
  each optional, with the type its schema gives. \<open>no_arguments\<close> is the empty object
  of \<^verbatim>\<open>args || {}\<close>.
\<close>

record tool_arguments =
  a_repoPath :: "string option"
  a_url :: "string option"
  a_targetPath :: "string option"
  a_branchName :: "string option"
  a_force :: "bool option"
  a_ref :: "string option"
  a_createBranch :: "bool option"
  a_branch :: "string option"
  a_noFastForward :: "bool option"
  a_files :: "string list option"
  a_cached :: "bool option"
  a_fromCommit :: "string option"
  a_toCommit :: "string option"
  a_useThreeDotRange :: "bool option"
  a_mode :: "reset_mode option"
  a_commit :: "string option"
  a_staged :: "bool option"
  a_message :: "string option"
  a_amend :: "bool option"
  a_maxCount :: "int option"
  a_file :: "string option"
  a_interactive :: "bool option"
  a_includeUntracked :: "bool option"
  a_index :: "int option"
  a_name :: "string option"
  a_remote :: "string option"
  a_rebase :: "bool option"
  a_setUpstream :: "bool option"


text \<open>
  \<^verbatim>\<open>toolHandlers\<close> maps a tool name to the function of \<^verbatim>\<open>git-tools.ts\<close> that is
  called on the bag. The function's parameter type declares some fields as plain
  strings or arrays; on a bag that lacks one of them the result depends on what the
  client library does with \<^verbatim>\<open>undefined\<close>, which this repository does not
  determine, so the handler is \<open>None\<close> there.
\<close>

type_synonym 'w handler = "tool_arguments \<Rightarrow> ('w, envelope) io option"

definition toolHandlers :: "node_runtime \<Rightarrow> (string \<Rightarrow> 'w GitProvider) \<Rightarrow> (string \<times> 'w handler) list" where
  "toolHandlers node sg = [
     (''git_status'', \<lambda>a. Some (gitTools_gitStatus node sg (a_repoPath a))),
     (''git_init'', \<lambda>a. Some (gitTools_gitInit node sg (a_repoPath a))),
     (''git_clone'', \<lambda>a. map_option (\<lambda>url.
        gitTools_gitClone node sg url (a_targetPath a) (a_repoPath a)) (a_url a)),
     (''git_branch_list'', \<lambda>a. Some (gitTools_gitBranchList node sg (a_repoPath a))),
     (''git_branch_create'', \<lambda>a. map_option (\<lambda>branchName.
        gitTools_gitBranchCreate node sg branchName (a_repoPath a)) (a_branchName a)),
     (''git_branch_delete'', \<lambda>a. map_option (\<lambda>branchName.
        gitTools_gitBranchDelete node sg branchName (a_force a) (a_repoPath a)) (a_branchName a)),
     (''git_checkout'', \<lambda>a. map_option (\<lambda>ref.
        gitTools_gitCheckout node sg ref (a_createBranch a) (a_repoPath a)) (a_ref a)),
     (''git_merge'', \<lambda>a. map_option (\<lambda>branch.
        gitTools_gitMerge node sg branch (a_noFastForward a) (a_repoPath a)) (a_branch a)),
     (''git_diff'', \<lambda>a. Some (gitTools_gitDiff node sg (a_files a) (a_cached a) (a_repoPath a))),
     (''git_add'', \<lambda>a. map_option (\<lambda>files.
        gitTools_gitAdd node sg files (a_repoPath a)) (a_files a)),
     (''git_reset'', \<lambda>a. Some (gitTools_gitReset node sg (a_files a) (a_mode a) (a_commit a) (a_repoPath a))),
     (''git_restore'', \<lambda>a. map_option (\<lambda>files.
        gitTools_gitRestore node sg files (a_staged a) (a_repoPath a)) (a_files a)),
     (''git_commit'', \<lambda>a. map_option (\<lambda>msg.
        gitTools_gitCommit node sg msg (a_files a) (a_amend a) (a_repoPath a)) (a_message a)),
     (''git_log'', \<lambda>a. Some (gitTools_gitLog node sg (a_maxCount a) (a_file a) (a_repoPath a))),
     (''git_show'', \<lambda>a. Some (gitTools_gitShow node sg (a_ref a) (a_repoPath a))),
     (''git_rebase'', \<lambda>a. map_option (\<lambda>branch.
        gitTools_gitRebase node sg branch (a_interactive a) (a_repoPath a)) (a_branch a)),
     (''git_stash'', \<lambda>a. Some (gitTools_gitStash node sg (a_message a) (a_includeUntracked a) (a_repoPath a))),
     (''git_stash_pop'', \<lambda>a. Some (gitTools_gitStashPop node sg (a_index a) (a_repoPath a))),
     (''git_stash_list'', \<lambda>a. Some (gitTools_gitStashList node sg (a_repoPath a))),
     (''git_cherry_pick'', \<lambda>a. map_option (\<lambda>commit.
        gitTools_gitCherryPick node sg commit (a_repoPath a)) (a_commit a)),
     (''git_remote_list'', \<lambda>a. Some (gitTools_gitRemoteList node sg (a_repoPath a))),
     (''git_remote_add'', \<lambda>a. case a_name a of None \<Rightarrow> None | Some remoteName \<Rightarrow>
        map_option (\<lambda>url. gitTools_gitRemoteAdd node sg remoteName url (a_repoPath a)) (a_url a)),
     (''git_fetch'', \<lambda>a. Some (gitTools_gitFetch node sg (a_remote a) (a_branch a) (a_repoPath a))),
     (''git_pull'', \<lambda>a. Some (gitTools_gitPull node sg (a_remote a) (a_branch a) (a_rebase a) (a_repoPath a))),
     (''git_push'', \<lambda>a. Some (gitTools_gitPush node sg (a_remote a) (a_branch a) (a_force a)
        (a_setUpstream a) (a_repoPath a)))]"






section \<open>Fixtures for evaluation\<close>

text \<open>
  \<^verbatim>\<open>MockGitProvider\<close> of the tests (__tests__/utils/mock-git-provider.ts): every
  primitive raises \<^verbatim>\<open>Mock error for <method>\<close> when \<open>shouldThrow\<close> holds for
  its name and returns the mock data otherwise. Its call log is what \<open>recording\<close>
  keeps, so its world is \<open>unit\<close>.
\<close>

definition mockStatus :: GitStatus where
  "mockStatus = \<lparr>st_modified = [], st_created = [], st_deleted = [], st_renamed = [],
     st_conflicted = [], st_not_added = [], st_staged = [], st_current = Some ''main'',
     st_tracking = Some ''origin/main'', st_ahead = 0, st_behind = 0, st_isClean = True\<rparr>"

definition mockBranches :: GitBranchSummary where
  "mockBranches = \<lparr>bs_detached = False, bs_current = ''main'', bs_all = [''main''],
     bs_branches = [''main'' \<mapsto> \<lparr>bi_name = ''main'', bi_commit = ''abc123'', bi_label = ''main'',
                                   bi_current = True\<rparr>]\<rparr>"

definition mockCommits :: "GitCommit list" where
  "mockCommits = [\<lparr>gc_hash = ''abc123'', gc_date = ''2024-01-01'', gc_message = ''Initial commit'',
     gc_author_name = ''Test User'', gc_author_email = ''test@example.com'', gc_body = [],
     gc_refs = []\<rparr>]"

definition mockDiffOutput :: string where
  "mockDiffOutput = ''diff --git a/file.txt b/file.txt'' @ [CHR 0x0A] @ ''+added line''"

definition mockDiffSummary :: GitDiffSummary where
  "mockDiffSummary = \<lparr>ds_files = [\<lparr>df_file = ''file.txt'', df_changes = Some 1,
       df_insertions = Some 1, df_deletions = Some 0, df_binary = False\<rparr>],
     ds_insertions = 1, ds_deletions = 0, ds_changed = 1\<rparr>"

definition mockCommitResult :: GitCommitResult where
  "mockCommitResult = \<lparr>cr_commit = ''def456'', cr_branch = ''main'',
     cr_author = Some ''Test User <test@example.com>'',
     cr_summary = \<lparr>cs_changes = 1, cs_insertions = 1, cs_deletions = 0\<rparr>\<rparr>"

definition mockMergeResult :: GitMergeResult where
  "mockMergeResult = \<lparr>mr_merges = [''feature-branch''], mr_conflicts = [], mr_result = ''success'',
     mr_summary = \<lparr>cs_changes = 1, cs_insertions = 1, cs_deletions = 0\<rparr>\<rparr>"

definition mockStashList :: GitStashList where
  "mockStashList = \<lparr>sl_all = [], sl_total = 0, sl_latest = None\<rparr>"

definition mockRemotes :: "GitRemote list" where
  "mockRemotes = [\<lparr>rm_name = ''origin'',
     rm_refs = \<lparr>rr_fetch = ''https://github.com/user/repo.git'',
                rr_push = ''https://github.com/user/repo.git''\<rparr>\<rparr>]"

definition mockShow :: string where
  "mockShow = ''commit abc123'' @ [CHR 0x0A] @ ''Author: Test User'' @ [CHR 0x0A]
     @ ''Date: 2024-01-01'' @ [CHR 0x0A, CHR 0x0A] @ ''Initial commit''"

definition mock :: "(string \<Rightarrow> bool) \<Rightarrow> string \<Rightarrow> 'a \<Rightarrow> (unit, 'a) io" where
  \<comment> \<open>\<^verbatim>\<open>checkThrow(method)\<close>, then the result\<close>
  "mock shouldThrow method result =
     (if shouldThrow method then throw (''Mock error for '' @ method) else ret result)"

definition MockGitProvider :: "(string \<Rightarrow> bool) \<Rightarrow> unit GitProvider" where
  "MockGitProvider shouldThrow = \<lparr>
     git_checkIsRepo = mock shouldThrow ''checkIsRepo'' True,
     git_status = mock shouldThrow ''status'' mockStatus,
     git_init = mock shouldThrow ''init'' (),
     git_clone = (\<lambda>url targetPath. mock shouldThrow ''clone'' ()),
     git_branch_summary = mock shouldThrow ''branch'' mockBranches,
     git_branch = (\<lambda>args. mock shouldThrow ''branch'' ()),
     git_checkout = (\<lambda>ref. mock shouldThrow ''checkout'' ()),
     git_checkoutBranch = (\<lambda>branchName startPoint. mock shouldThrow ''checkoutBranch'' ()),
     git_merge = (\<lambda>args. mock shouldThrow ''merge'' mockMergeResult),
     git_diff = (\<lambda>args. mock shouldThrow ''diff'' mockDiffOutput),
     git_diffSummary = (\<lambda>args. mock shouldThrow ''diffSummary'' mockDiffSummary),
     git_add = (\<lambda>files. mock shouldThrow ''add'' ()),
     git_reset = (\<lambda>args. mock shouldThrow ''reset'' ()),
     git_raw = (\<lambda>args. mock shouldThrow ''raw'' []),
     git_commit = (\<lambda>msg files options. mock shouldThrow ''commit'' mockCommitResult),
     git_log = (\<lambda>options. mock shouldThrow ''log''
        \<lparr>lr_all = mockCommits, lr_total = int (length mockCommits),
         lr_latest = (case mockCommits of [] \<Rightarrow> None | c # _ \<Rightarrow> Some c)\<rparr>),
     git_show = (\<lambda>args. mock shouldThrow ''show'' mockShow),
     git_rebase = (\<lambda>args. mock shouldThrow ''rebase'' ()),
     git_stash = (\<lambda>args. mock shouldThrow ''stash'' ()),
     git_stashList = mock shouldThrow ''stashList'' mockStashList,
     git_getRemotes = (\<lambda>verbose. mock shouldThrow ''getRemotes'' mockRemotes),
     git_addRemote = (\<lambda>n url. mock shouldThrow ''addRemote'' ()),
     git_fetch = (\<lambda>remote branch. mock shouldThrow ''fetch'' ()),
     git_pull = (\<lambda>remote branch options. mock shouldThrow ''pull'' ()),
     git_push = (\<lambda>remote branch options. mock shouldThrow ''push'' ())\<rparr>"

text \<open>A provider like the mock whose repository check answers \<^verbatim>\<open>false\<close>.\<close>

definition notARepository :: "unit GitProvider" where
  "notARepository = (MockGitProvider (\<lambda>_. False))\<lparr>git_checkIsRepo := ret False\<rparr>"

text \<open>
  A model of \<^verbatim>\<open>path.posix.basename(path, suffix)\<close>, to evaluate the operations on
  concrete inputs. \<open>base\<close> is the last segment of the path, the separators that trail
  it (\<open>trailing\<close>) ignored. With a suffix that is empty or longer than the path the
  result is \<open>base\<close>; when the whole path is the suffix it is the empty string; when
  \<open>base\<close> ends with the suffix and is longer, it is \<open>base\<close> without the suffix; when
  \<open>base\<close> is shorter than the suffix and ends it, Node's backward scan never completes
  the suffix and returns the path from the start of the segment to its end, trailing
  separators included; otherwise it is \<open>base\<close>.
\<close>

definition posix_basename :: "string \<Rightarrow> string \<Rightarrow> string" where
  "posix_basename path suffix =
     (let trailing = takeWhile (\<lambda>c. c = CHR ''/'') (rev path);
          trimmed = rev (dropWhile (\<lambda>c. c = CHR ''/'') (rev path));
          base = rev (takeWhile (\<lambda>c. c \<noteq> CHR ''/'') (rev trimmed))
      in if suffix = [] \<or> length path < length suffix then base
         else if suffix = path then []
         else if length suffix < length base
                 \<and> drop (length base - length suffix) base = suffix
         then take (length base - length suffix) base
         else if length base < length suffix
                 \<and> drop (length suffix - length base) suffix = base
         then base @ trailing
         else base)"

text \<open>
  A model of the text JavaScript gives an integer-valued number of magnitude below
  \<open>10^21\<close>: its decimal numeral, with a minus sign when it is negative.
\<close>

definition show_int :: "int \<Rightarrow> string" where
  "show_int i = (if i < 0 then ''-'' @ show_nat (nat (- i)) else show_nat (nat i))"


definition posix :: "string \<Rightarrow> node_runtime" where
  "posix cwd = \<lparr>process_cwd = cwd, path_basename = posix_basename, number_toString = show_int\<rparr>"

section \<open>Observing a run\<close>

text \<open>
  \<open>observe m w\<close> runs \<open>m\<close> on a recording provider from the world \<open>w\<close> with an
  empty trace and gives the result with the trace of the provider calls made.
  \<open>begins_with p s\<close>: the string \<open>s\<close> starts with \<open>p\<close>.
\<close>

definition observe :: "('w \<times> event list, 'a) io \<Rightarrow> 'w \<Rightarrow> (string + 'a) \<times> event list" where
  "observe m w = (case m (w, []) of (r, (w', tr)) \<Rightarrow> (r, tr))"

definition begins_with :: "string \<Rightarrow> string \<Rightarrow> bool" where
  "begins_with p s = (take (length p) s = p)"

section \<open>Invariants of runs\<close>

text \<open>
  What the proofs establish about a computation on a recording provider.
  \<open>disciplined Q m\<close>: when \<open>m\<close> returns \<open>x\<close> then \<open>Q x\<close> holds and every call it
  appended to the trace returned; when it raises a fault, the last call it appended
  raised that fault and the calls before returned. \<open>safe Q m\<close> keeps the first half,
  on any world.
\<close>

definition returned :: "event \<Rightarrow> bool" where
  "returned ev = (case snd ev of Returned v \<Rightarrow> True | Faulted msg \<Rightarrow> False)"

definition disciplined :: "('a \<Rightarrow> bool) \<Rightarrow> ('w \<times> event list, 'a) io \<Rightarrow> bool" where
  "disciplined Q m = (\<forall>w tr r w' tr'. m (w, tr) = (r, (w', tr')) \<longrightarrow>
     (case r of
        Inr x \<Rightarrow> Q x \<and> (\<exists>new. tr' = tr @ new \<and> list_all returned new)
      | Inl msg \<Rightarrow> (\<exists>new c. tr' = tr @ new @ [(c, Faulted msg)] \<and> list_all returned new)))"


text \<open>
  The four ways a run of an operation of the groups ends, on the factory \<open>getGit\<close>
  over recording providers: the repository check raised a fault; the check answered
  \<^verbatim>\<open>false\<close>; every call returned and the envelope reports success; a later call raised
  a fault. \<open>checked\<close> tells whether the operation leaves \<^verbatim>\<open>required\<close> at its default.
\<close>

definition run_shape ::
  "node_runtime \<Rightarrow> (string \<Rightarrow> 'w GitProvider) \<Rightarrow> bool \<Rightarrow> string option \<Rightarrow> string \<Rightarrow> 'w
     \<Rightarrow> (string + envelope) \<Rightarrow> event list \<Rightarrow> bool" where
  "run_shape node sg checked repoPath pfx w r tr =
     (let base = or_string repoPath (process_cwd node);
          check = fst (git_checkIsRepo (sg base) w)
      in (checked \<and> (\<exists>e. check = Inl e \<and> tr = [(CheckIsRepo, Faulted e)]
              \<and> r = Inr \<lparr>success = False, message = pfx @ e, data = None\<rparr>))
       \<or> (checked \<and> check = Inr False \<and> tr = [(CheckIsRepo, Returned (RBool False))]
              \<and> r = Inr \<lparr>success = False, message = pfx @ ''Not a git repository: '' @ base,
                         data = None\<rparr>)
       \<or> (\<exists>new e. (if checked
                     then check = Inr True \<and> tr = (CheckIsRepo, Returned (RBool True)) # new
                     else tr = new)
              \<and> list_all returned new \<and> r = Inr e \<and> success e)
       \<or> (\<exists>new c msg. (if checked
                     then check = Inr True
                          \<and> tr = (CheckIsRepo, Returned (RBool True)) # new @ [(c, Faulted msg)]
                     else tr = new @ [(c, Faulted msg)])
              \<and> list_all returned new
              \<and> r = Inr \<lparr>success = False, message = pfx @ msg, data = None\<rparr>))"



section \<open>Running computations\<close>

lemmas io_defs = bind_def ret_def throw_def try_catch_def failed_def

lemma observe_eq: "observe m w = (r, tr) \<longleftrightarrow> (\<exists>w'. m (w, []) = (r, (w', tr)))"
  by (auto simp: observe_def split: prod.splits)

lemma recording_simps:
  "git_checkIsRepo (recording p) = logged CheckIsRepo RBool (git_checkIsRepo p)"
  "git_status (recording p) = logged Status RStatus (git_status p)"
  "git_init (recording p) = logged Init (\<lambda>_. RVoid) (git_init p)"
  "git_clone (recording p) = (\<lambda>url targetPath. logged (Clone url targetPath) (\<lambda>_. RVoid) (git_clone p url targetPath))"
  "git_branch_summary (recording p) = logged BranchSummary RBranches (git_branch_summary p)"
  "git_branch (recording p) = (\<lambda>args. logged (Branch args) (\<lambda>_. RVoid) (git_branch p args))"
  "git_checkout (recording p) = (\<lambda>ref. logged (Checkout ref) (\<lambda>_. RVoid) (git_checkout p ref))"
  "git_checkoutBranch (recording p) = (\<lambda>branchName startPoint. logged (CheckoutBranch branchName startPoint) (\<lambda>_. RVoid) (git_checkoutBranch p branchName startPoint))"
  "git_merge (recording p) = (\<lambda>args. logged (Merge args) RMerge (git_merge p args))"
  "git_diff (recording p) = (\<lambda>args. logged (Diff args) RText (git_diff p args))"
  "git_diffSummary (recording p) = (\<lambda>args. logged (DiffSummary args) RDiffSummary (git_diffSummary p args))"
  "git_add (recording p) = (\<lambda>files. logged (Add files) (\<lambda>_. RVoid) (git_add p files))"
  "git_reset (recording p) = (\<lambda>args. logged (Reset args) (\<lambda>_. RVoid) (git_reset p args))"
  "git_raw (recording p) = (\<lambda>args. logged (Raw args) RText (git_raw p args))"
  "git_commit (recording p) = (\<lambda>msg files options. logged (Commit msg files options) RCommit (git_commit p msg files options))"
  "git_log (recording p) = (\<lambda>options. logged (Log options) RLog (git_log p options))"
  "git_show (recording p) = (\<lambda>args. logged (Show args) RText (git_show p args))"
  "git_rebase (recording p) = (\<lambda>args. logged (Rebase args) (\<lambda>_. RVoid) (git_rebase p args))"
  "git_stash (recording p) = (\<lambda>args. logged (Stash args) (\<lambda>_. RVoid) (git_stash p args))"
  "git_stashList (recording p) = logged StashList RStashes (git_stashList p)"
  "git_getRemotes (recording p) = (\<lambda>verbose. logged (GetRemotes verbose) RRemotes (git_getRemotes p verbose))"
  "git_addRemote (recording p) = (\<lambda>n url. logged (AddRemote n url) (\<lambda>_. RVoid) (git_addRemote p n url))"
  "git_fetch (recording p) = (\<lambda>remote branch. logged (Fetch remote branch) (\<lambda>_. RVoid) (git_fetch p remote branch))"
  "git_pull (recording p) = (\<lambda>remote branch options. logged (Pull remote branch options) (\<lambda>_. RVoid) (git_pull p remote branch options))"
  "git_push (recording p) = (\<lambda>remote branch options. logged (Push remote branch options) (\<lambda>_. RVoid) (git_push p remote branch options))"
  by (simp_all add: recording_def)

lemma logged_apply:
  "logged c tag m (w, tr) = (case m w of
      (Inl e, w') \<Rightarrow> (Inl e, (w', tr @ [(c, Faulted e)]))
    | (Inr x, w') \<Rightarrow> (Inr x, (w', tr @ [(c, Returned (tag x))])))"
  by (simp add: logged_def)

lemma disciplinedD_Inr:
  "disciplined Q m \<Longrightarrow> m (w, tr) = (Inr x, (w', tr')) \<Longrightarrow>
     Q x \<and> (\<exists>new. tr' = tr @ new \<and> list_all returned new)"
  unfolding disciplined_def by fastforce

lemma disciplinedD_Inl:
  "disciplined Q m \<Longrightarrow> m (w, tr) = (Inl msg, (w', tr')) \<Longrightarrow>
     \<exists>new c. tr' = tr @ new @ [(c, Faulted msg)] \<and> list_all returned new"
  unfolding disciplined_def by fastforce

lemma disciplined_ret: "Q x \<Longrightarrow> disciplined Q (ret x)"
  by (simp add: disciplined_def ret_def)

lemma disciplined_logged: "disciplined (\<lambda>x. True) (logged c tag m)"
  by (auto simp: disciplined_def logged_apply returned_def split: prod.splits sum.splits)

lemma disciplined_bind:
  assumes m: "disciplined (\<lambda>x. True) m" and f: "\<And>x. disciplined Q (f x)"
  shows "disciplined Q (bind m f)"
  unfolding disciplined_def
proof (intro allI impI)
  fix w tr r w' tr'
  assume run: "bind m f (w, tr) = (r, (w', tr'))"
  obtain r1 w1 tr1 where run1: "m (w, tr) = (r1, (w1, tr1))" by (metis prod.exhaust)
  show "case r of
        Inr x \<Rightarrow> Q x \<and> (\<exists>new. tr' = tr @ new \<and> list_all returned new)
      | Inl msg \<Rightarrow> (\<exists>new c. tr' = tr @ new @ [(c, Faulted msg)] \<and> list_all returned new)"
  proof (cases r1)
    case (Inl e)
    with run run1 have "r = Inl e" "w' = w1" "tr' = tr1" by (simp_all add: bind_def)
    with disciplinedD_Inl[OF m] run1 Inl show ?thesis by simp
  next
    case (Inr x)
    with disciplinedD_Inr[OF m] run1 obtain new1 where n1: "tr1 = tr @ new1" "list_all returned new1"
      by blast
    from run run1 Inr have run2: "f x (w1, tr1) = (r, (w', tr'))" by (simp add: bind_def)
    show ?thesis
    proof (cases r)
      case (Inl msg)
      with disciplinedD_Inl[OF f] run2 obtain new2 c
        where "tr' = tr1 @ new2 @ [(c, Faulted msg)]" "list_all returned new2" by blast
      with n1 have "tr' = tr @ (new1 @ new2) @ [(c, Faulted msg)] \<and> list_all returned (new1 @ new2)"
        by simp
      with Inl show ?thesis by (simp del: append_assoc)
    next
      case (Inr y)
      with disciplinedD_Inr[OF f] run2 obtain new2
        where "Q y" "tr' = tr1 @ new2" "list_all returned new2" by blast
      with n1 have "Q y \<and> tr' = tr @ (new1 @ new2) \<and> list_all returned (new1 @ new2)" by simp
      with Inr show ?thesis by (simp del: append_assoc)
    qed
  qed
qed

lemma disciplined_step:
  "(\<And>x. disciplined Q (f x)) \<Longrightarrow> disciplined Q (bind (logged c tag m) f)"
  by (rule disciplined_bind[OF disciplined_logged])

lemmas disciplined_intros =
  disciplined_step disciplined_bind disciplined_logged disciplined_ret

section \<open>The shape of a run of an operation\<close>

lemma checked_run:
  assumes body: "\<And>p. disciplined success (body (recording p))"
    and run: "observe (try_catch (bind (getGit node (\<lambda>path. recording (sg path)) repoPath None) body)
                  (failed pfx)) w = (r, tr)"
  shows "run_shape node sg True repoPath pfx w r tr"
proof -
  define base where "base = or_string repoPath (process_cwd node)"
  obtain c w1 where check: "git_checkIsRepo (sg base) w = (c, w1)" by (metis prod.exhaust)
  from run obtain w' where run': "try_catch (bind (getGit node (\<lambda>path. recording (sg path)) repoPath None) body)
                  (failed pfx) (w, []) = (r, (w', tr))"
    by (auto simp: observe_eq)
  show ?thesis
  proof (cases c)
    case (Inl e)
    with run' check show ?thesis
      by (auto simp: run_shape_def getGit_def io_defs recording_simps logged_apply base_def Let_def)
  next
    case (Inr b)
    show ?thesis
    proof (cases b)
      case False
      with Inr run' check show ?thesis
        by (auto simp: run_shape_def getGit_def io_defs recording_simps logged_apply base_def Let_def)
    next
      case True
      obtain rb wb trb where rb: "body (recording (sg base)) (w1, [(CheckIsRepo, Returned (RBool True))]) = (rb, (wb, trb))"
        by (metis prod.exhaust)
      show ?thesis
      proof (cases rb)
        case (Inl msg)
        from disciplinedD_Inl[OF body rb[unfolded Inl]] obtain new c'
          where "trb = [(CheckIsRepo, Returned (RBool True))] @ new @ [(c', Faulted msg)]" "list_all returned new"
          by blast
        with Inl True Inr run' check rb show ?thesis
          by (auto simp: run_shape_def getGit_def io_defs recording_simps logged_apply base_def Let_def)
      next
        case (Inr e)
        from disciplinedD_Inr[OF body rb[unfolded Inr]] obtain new
          where "success e" "trb = [(CheckIsRepo, Returned (RBool True))] @ new" "list_all returned new"
          by blast
        with Inr True \<open>c = Inr b\<close> run' check rb show ?thesis
          by (auto simp: run_shape_def getGit_def io_defs recording_simps logged_apply base_def Let_def)
      qed
    qed
  qed
qed

lemma unchecked_run:
  assumes body: "\<And>p. disciplined success (body (recording p))"
    and run: "observe (try_catch (bind (getGit node (\<lambda>path. recording (sg path)) repoPath (Some False)) body)
                  (failed pfx)) w = (r, tr)"
  shows "run_shape node sg False repoPath pfx w r tr"
proof -
  define base where "base = or_string repoPath (process_cwd node)"
  from run obtain w' where run': "try_catch (bind (getGit node (\<lambda>path. recording (sg path)) repoPath (Some False)) body)
                  (failed pfx) (w, []) = (r, (w', tr))"
    by (auto simp: observe_eq)
  obtain rb wb trb where rb: "body (recording (sg base)) (w, []) = (rb, (wb, trb))"
    by (metis prod.exhaust)
  show ?thesis
  proof (cases rb)
    case (Inl msg)
    from disciplinedD_Inl[OF body rb[unfolded Inl]] obtain new c'
      where "trb = new @ [(c', Faulted msg)]" "list_all returned new"
      by auto
    with Inl run' rb show ?thesis
      by (auto simp: run_shape_def getGit_def io_defs base_def Let_def)
  next
    case (Inr e)
    from disciplinedD_Inr[OF body rb[unfolded Inr]] obtain new
      where "success e" "trb = new" "list_all returned new"
      by auto
    with Inr run' rb show ?thesis
      by (auto simp: run_shape_def getGit_def io_defs base_def Let_def)
  qed
qed

lemma invoke_run:
  assumes run: "observe (invoke node (getGit node (\<lambda>path. recording (sg path))) c) w = (r, tr)"
  shows "run_shape node sg (repository_required c) (repoPath_of c) (failure_prefix c) w r tr"
proof (cases c)
  case (OpStatus x1)
  with run show ?thesis
    by (simp add: gitStatus_def repository_required_def, elim checked_run[rotated])
       (auto simp: recording_simps Let_def intro!: disciplined_intros)
  next
  case (OpInit x1)
  with run show ?thesis
    by (simp add: gitInit_def repository_required_def, elim unchecked_run[rotated])
       (auto simp: recording_simps Let_def intro!: disciplined_intros)
  next
  case (OpClone x1 x2 x3)
  with run show ?thesis
    by (simp add: gitClone_def repository_required_def, elim unchecked_run[rotated])
       (auto simp: recording_simps Let_def intro!: disciplined_intros)
  next
  case (OpBranchList x1)
  with run show ?thesis
    by (simp add: gitBranchList_def repository_required_def, elim checked_run[rotated])
       (auto simp: recording_simps Let_def intro!: disciplined_intros)
  next
  case (OpBranchCreate x1 x2)
  with run show ?thesis
    by (simp add: gitBranchCreate_def repository_required_def, elim checked_run[rotated])
       (auto simp: recording_simps Let_def intro!: disciplined_intros)
  next
  case (OpBranchDelete x1 x2 x3)
  with run show ?thesis
    by (simp add: gitBranchDelete_def repository_required_def, elim checked_run[rotated])
       (auto simp: recording_simps Let_def intro!: disciplined_intros)
  next
  case (OpCheckout x1 x2 x3)
  with run show ?thesis
    by (simp add: gitCheckout_def repository_required_def, elim checked_run[rotated])
       (auto simp: recording_simps Let_def intro!: disciplined_intros)
  next
  case (OpMerge x1 x2 x3)
  with run show ?thesis
    by (simp add: gitMerge_def repository_required_def, elim checked_run[rotated])
       (auto simp: recording_simps Let_def intro!: disciplined_intros)
  next
  case (OpDiff x1 x2 x3 x4 x5 x6)
  with run show ?thesis
    by (simp add: gitDiff_def repository_required_def, elim checked_run[rotated])
       (auto simp: recording_simps Let_def intro!: disciplined_intros)
  next
  case (OpAdd x1 x2)
  with run show ?thesis
    by (simp add: gitAdd_def repository_required_def, elim checked_run[rotated])
       (auto simp: recording_simps Let_def intro!: disciplined_intros)
  next
  case (OpReset x1 x2 x3 x4)
  with run show ?thesis
    by (simp add: gitReset_def repository_required_def, elim checked_run[rotated])
       (auto simp: recording_simps Let_def intro!: disciplined_intros)
  next
  case (OpRestore x1 x2 x3)
  with run show ?thesis
    by (simp add: gitRestore_def repository_required_def, elim checked_run[rotated])
       (auto simp: recording_simps Let_def intro!: disciplined_intros)
  next
  case (OpCommit x1 x2 x3 x4)
  with run show ?thesis
    by (simp add: gitCommit_def repository_required_def, elim checked_run[rotated])
       (auto simp: recording_simps Let_def intro!: disciplined_intros)
  next
  case (OpLog x1 x2 x3)
  with run show ?thesis
    by (simp add: gitLog_def repository_required_def, elim checked_run[rotated])
       (auto simp: recording_simps Let_def intro!: disciplined_intros)
  next
  case (OpShow x1 x2)
  with run show ?thesis
    by (simp add: gitShow_def repository_required_def, elim checked_run[rotated])
       (auto simp: recording_simps Let_def intro!: disciplined_intros)
  next
  case (OpRebase x1 x2 x3)
  with run show ?thesis
    by (simp add: gitRebase_def repository_required_def, elim checked_run[rotated])
       (auto simp: recording_simps Let_def intro!: disciplined_intros)
  next
  case (OpStash x1 x2 x3)
  with run show ?thesis
    by (simp add: gitStash_def repository_required_def, elim checked_run[rotated])
       (auto simp: recording_simps Let_def intro!: disciplined_intros)
  next
  case (OpStashPop x1 x2)
  with run show ?thesis
    by (simp add: gitStashPop_def repository_required_def, elim checked_run[rotated])
       (auto simp: recording_simps Let_def intro!: disciplined_intros)
  next
  case (OpStashList x1)
  with run show ?thesis
    by (simp add: gitStashList_def repository_required_def, elim checked_run[rotated])
       (auto simp: recording_simps Let_def intro!: disciplined_intros)
  next
  case (OpCherryPick x1 x2)
  with run show ?thesis
    by (simp add: gitCherryPick_def repository_required_def, elim checked_run[rotated])
       (auto simp: recording_simps Let_def intro!: disciplined_intros)
  next
  case (OpRemoteList x1)
  with run show ?thesis
    by (simp add: gitRemoteList_def repository_required_def, elim checked_run[rotated])
       (auto simp: recording_simps Let_def intro!: disciplined_intros)
  next
  case (OpRemoteAdd x1 x2 x3)
  with run show ?thesis
    by (simp add: gitRemoteAdd_def repository_required_def, elim checked_run[rotated])
       (auto simp: recording_simps Let_def intro!: disciplined_intros)
  next
  case (OpFetch x1 x2 x3)
  with run show ?thesis
    by (simp add: gitFetch_def repository_required_def, elim checked_run[rotated])
       (auto simp: recording_simps Let_def intro!: disciplined_intros)
  next
  case (OpPull x1 x2 x3 x4)
  with run show ?thesis
    by (simp add: gitPull_def repository_required_def, elim checked_run[rotated])
       (auto simp: recording_simps Let_def intro!: disciplined_intros)
  next
  case (OpPush x1 x2 x3 x4 x5)
  with run show ?thesis
    by (simp add: gitPush_def repository_required_def, elim checked_run[rotated])
       (auto simp: recording_simps Let_def intro!: disciplined_intros)
qed

section \<open>The single-file implementation\<close>



lemma begins_with_append [simp]: "begins_with p (p @ s)"
  by (simp add: begins_with_def)






section \<open>Case analysis of a run\<close>

lemma checked_cases [consumes 1, case_names check_fault not_repo proceed]:
  assumes run: "observe (try_catch (bind (getGit node (\<lambda>path. recording (sg path)) repoPath None) body)
                  (failed pfx)) w = (r, tr)"
  obtains
    (check_fault) e where
      "r = Inr \<lparr>success = False, message = pfx @ e, data = None\<rparr>"
      "tr = [(CheckIsRepo, Faulted e)]"
  | (not_repo)
      "r = Inr \<lparr>success = False,
                 message = pfx @ ''Not a git repository: '' @ or_string repoPath (process_cwd node),
                 data = None\<rparr>"
      "tr = [(CheckIsRepo, Returned (RBool False))]"
  | (proceed) w1 rb w2 where
      "body (recording (sg (or_string repoPath (process_cwd node))))
         (w1, [(CheckIsRepo, Returned (RBool True))]) = (rb, (w2, tr))"
      "r = (case rb of Inl e \<Rightarrow> Inr \<lparr>success = False, message = pfx @ e, data = None\<rparr>
            | Inr x \<Rightarrow> Inr x)"
proof -
  define base where "base = or_string repoPath (process_cwd node)"
  obtain c w1 where check: "git_checkIsRepo (sg base) w = (c, w1)" by fastforce
  from run obtain w' where run': "try_catch (bind (getGit node (\<lambda>path. recording (sg path)) repoPath None) body)
                  (failed pfx) (w, []) = (r, (w', tr))"
    by (auto simp: observe_eq)
  show thesis
  proof (cases c)
    case (Inl e)
    with run' check have "r = Inr \<lparr>success = False, message = pfx @ e, data = None\<rparr>"
      "tr = [(CheckIsRepo, Faulted e)]"
      by (simp_all add: getGit_def io_defs recording_simps logged_apply base_def Let_def)
    then show thesis by (rule check_fault)
  next
    case (Inr b)
    show thesis
    proof (cases b)
      case False
      with Inr run' check have "r = Inr \<lparr>success = False,
                 message = pfx @ ''Not a git repository: '' @ or_string repoPath (process_cwd node),
                 data = None\<rparr>" "tr = [(CheckIsRepo, Returned (RBool False))]"
        by (simp_all add: getGit_def io_defs recording_simps logged_apply base_def Let_def)
      then show thesis by (rule not_repo)
    next
      case True
      obtain rb wb trb where rb: "body (recording (sg base)) (w1, [(CheckIsRepo, Returned (RBool True))]) = (rb, (wb, trb))"
        by (metis prod.exhaust)
      with True Inr run' check have "trb = tr"
        "r = (case rb of Inl e \<Rightarrow> Inr \<lparr>success = False, message = pfx @ e, data = None\<rparr>
            | Inr x \<Rightarrow> Inr x)"
        by (auto simp add: getGit_def io_defs recording_simps logged_apply base_def Let_def split: sum.splits)
      with rb show thesis using proceed[of w1 rb wb] by (simp add: base_def)
    qed
  qed
qed


lemma legacy_cases [consumes 1, case_names check_fault not_repo proceed]:
  assumes run: "observe (try_catch (bind (verifyGitRepo node (\<lambda>path. recording (sg path)) repoPath)
                  (\<lambda>error. case error of Some e \<Rightarrow> ret e | None \<Rightarrow> cont)) (failed pfx)) w = (r, tr)"
  obtains
    (check_fault) e where
      "r = Inr \<lparr>success = False, message = ''Error verifying repository: '' @ e, data = None\<rparr>"
      "tr = [(CheckIsRepo, Faulted e)]"
  | (not_repo)
      "r = Inr \<lparr>success = False,
                 message = ''Not a git repository: '' @ or_string repoPath (process_cwd node),
                 data = None\<rparr>"
      "tr = [(CheckIsRepo, Returned (RBool False))]"
  | (proceed) w1 rb w2 where
      "cont (w1, [(CheckIsRepo, Returned (RBool True))]) = (rb, (w2, tr))"
      "r = (case rb of Inl e \<Rightarrow> Inr \<lparr>success = False, message = pfx @ e, data = None\<rparr>
            | Inr x \<Rightarrow> Inr x)"
proof -
  define base where "base = or_string repoPath (process_cwd node)"
  obtain c w1 where check: "git_checkIsRepo (sg base) w = (c, w1)" by fastforce
  from run obtain w' where run': "try_catch (bind (verifyGitRepo node (\<lambda>path. recording (sg path)) repoPath)
                  (\<lambda>error. case error of Some e \<Rightarrow> ret e | None \<Rightarrow> cont)) (failed pfx) (w, []) = (r, (w', tr))"
    by (auto simp: observe_eq)
  show thesis
  proof (cases c)
    case (Inl e)
    with run' check have "r = Inr \<lparr>success = False, message = ''Error verifying repository: '' @ e, data = None\<rparr>"
      "tr = [(CheckIsRepo, Faulted e)]"
      by (simp_all add: verifyGitRepo_def gitTools_getGit_def io_defs recording_simps logged_apply base_def Let_def)
    then show thesis by (rule check_fault)
  next
    case (Inr b)
    show thesis
    proof (cases b)
      case False
      with Inr run' check have "r = Inr \<lparr>success = False,
                 message = ''Not a git repository: '' @ or_string repoPath (process_cwd node),
                 data = None\<rparr>" "tr = [(CheckIsRepo, Returned (RBool False))]"
        by (simp_all add: verifyGitRepo_def gitTools_getGit_def io_defs recording_simps logged_apply base_def Let_def)
      then show thesis by (rule not_repo)
    next
      case True
      obtain rb wb trb where rb: "cont (w1, [(CheckIsRepo, Returned (RBool True))]) = (rb, (wb, trb))"
        by (metis prod.exhaust)
      with True Inr run' check have "trb = tr"
        "r = (case rb of Inl e \<Rightarrow> Inr \<lparr>success = False, message = pfx @ e, data = None\<rparr>
            | Inr x \<Rightarrow> Inr x)"
        by (auto simp add: verifyGitRepo_def gitTools_getGit_def io_defs recording_simps logged_apply base_def Let_def
                 split: sum.splits)
      with rb show thesis using proceed[of w1 rb wb] by simp
    qed
  qed
qed

section \<open>The dispatcher\<close>















section \<open>Bodies of single operations\<close>

text \<open>What the part of an operation after the factory call does, call by call.\<close>

lemma commit_body:
  assumes files: "files \<noteq> []"
    and body: "bind (if truthy_list (Some files)
            then bind (git_add (recording git) (list_of (Some files)))
                   (\<lambda>_. git_commit (recording git) msg None opts)
            else git_commit (recording git) msg None opts) (\<lambda>result.
      ret \<lparr>success = True,
           message = ''Committed changes: '' @ cr_commit result,
           data = Some (CommitPayload \<lparr>cd_commit = cr_commit result, cd_summary = cr_summary result\<rparr>)\<rparr>)
        (w1, [ev]) = (rb, (w2, tr))"
  shows "(\<exists>e. rb = Inl e \<and> tr = [ev, (Add files, Faulted e)])
       \<or> (\<exists>e. rb = Inl e \<and> tr = [ev, (Add files, Returned RVoid), (Commit msg None opts, Faulted e)])
       \<or> (\<exists>res. rb = Inr \<lparr>success = True, message = ''Committed changes: '' @ cr_commit res,
                       data = Some (CommitPayload \<lparr>cd_commit = cr_commit res,
                                                    cd_summary = cr_summary res\<rparr>)\<rparr>
             \<and> tr = [ev, (Add files, Returned RVoid), (Commit msg None opts, Returned (RCommit res))])"
proof -
  obtain a wa where add: "git_add git files w1 = (a, wa)" by fastforce
  obtain k wk where commit: "git_commit git msg None opts wa = (k, wk)" by fastforce
  have t: "truthy_list (Some files)" "list_of (Some files) = files"
    using files by (simp_all add: truthy_list_def list_of_def)
  show ?thesis
  proof (cases a)
    case (Inl e)
    with body add t show ?thesis
      by (auto simp add: recording_simps bind_def logged_apply)
  next
    case (Inr u)
    show ?thesis
    proof (cases k)
      case (Inl m)
      with Inr body add commit t show ?thesis
        by (auto simp add: recording_simps bind_def logged_apply)
    next
      case (Inr res)
      with \<open>a = Inr u\<close> body add commit t show ?thesis
        by (auto simp add: recording_simps bind_def logged_apply ret_def)
    qed
  qed
qed

lemma log_body:
  assumes body: "bind (git_log (recording git) options) (\<lambda>log. ret (env log)) (w1, [ev]) = (rb, (w2, tr))"
  shows "(\<exists>e. rb = Inl e \<and> tr = [ev, (Log options, Faulted e)])
       \<or> (\<exists>res. rb = Inr (env res) \<and> tr = [ev, (Log options, Returned (RLog res))])"
proof -
  obtain s ws where "git_log git options w1 = (s, ws)" by fastforce
  with body show ?thesis
    by (cases s) (auto simp add: recording_simps bind_def logged_apply ret_def)
qed

lemma stash_pop_body:
  assumes body: "bind (git_stash (recording git) args) (\<lambda>_. ret env) (w1, [ev]) = (rb, (w2, tr))"
  shows "(\<exists>e. rb = Inl e \<and> tr = [ev, (Stash args, Faulted e)])
       \<or> (rb = Inr env \<and> tr = [ev, (Stash args, Returned RVoid)])"
proof -
  obtain s ws where stash: "git_stash git args w1 = (s, ws)" by fastforce
  with body show ?thesis
    by (cases s) (auto simp add: recording_simps bind_def logged_apply ret_def)
qed


lemma diff_body:
  assumes body: "bind (git_diff (recording git) args) (\<lambda>diff.
        bind (git_diffSummary (recording git) sargs) (\<lambda>diffSummary. ret (env diff diffSummary)))
        (w1, [ev]) = (rb, (w2, tr))"
  shows "(\<exists>e. rb = Inl e \<and> tr = [ev, (Diff args, Faulted e)])
       \<or> (\<exists>e d. rb = Inl e \<and> tr = [ev, (Diff args, Returned (RText d)), (DiffSummary sargs, Faulted e)])
       \<or> (\<exists>d s. rb = Inr (env d s)
             \<and> tr = [ev, (Diff args, Returned (RText d)), (DiffSummary sargs, Returned (RDiffSummary s))])"
proof -
  obtain d wd where diff: "git_diff git args w1 = (d, wd)" by fastforce
  obtain s ws where summary: "git_diffSummary git sargs wd = (s, ws)" by fastforce
  show ?thesis
  proof (cases d)
    case (Inl e)
    with body diff show ?thesis
      by (auto simp add: recording_simps bind_def logged_apply)
  next
    case (Inr d')
    with body diff summary show ?thesis
      by (cases s) (auto simp add: recording_simps bind_def logged_apply ret_def)
  qed
qed

lemma range_not_separator: "a \<noteq> [] \<Longrightarrow> b \<noteq> [] \<Longrightarrow> a @ (if t then ''...'' else ''..'') @ b \<noteq> ''--''"
proof
  assume a: "a \<noteq> []" and b: "b \<noteq> []" and eq: "a @ (if t then ''...'' else ''..'') @ b = ''--''"
  from a b have "1 \<le> length a" "1 \<le> length b" by (simp_all add: Suc_leI)
  then have "4 \<le> length (a @ (if t then ''...'' else ''..'') @ b)" by simp
  with eq show False by simp
qed

lemma branch_list_body:
  assumes body: "bind (git_branch_summary (recording git)) (\<lambda>branches. ret (env branches))
        (w1, [ev]) = (rb, (w2, tr))"
  shows "(\<exists>e. rb = Inl e \<and> tr = [ev, (BranchSummary, Faulted e)])
       \<or> (\<exists>b. rb = Inr (env b) \<and> tr = [ev, (BranchSummary, Returned (RBranches b))])"
proof -
  obtain s ws where "git_branch_summary git w1 = (s, ws)" by fastforce
  with body show ?thesis
    by (cases s) (auto simp add: recording_simps bind_def logged_apply ret_def)
qed

lemma branch_list_result:
  assumes run: "observe (gitBranchList (getGit node (\<lambda>path. recording (sg path))) repoPath) w = (r, tr)"
    and summary: "(BranchSummary, Returned (RBranches branches)) \<in> set tr"
  shows "r = Inr \<lparr>success = True,
           message = ''Found '' @ show_nat (length (bs_all branches)) @ '' branches'',
           data = Some (BranchListPayload (map (\<lambda>name. \<lparr>
            b_name = name,
            b_current = (name = bs_current branches),
            b_commit = (case bs_branches branches name of
                          None \<Rightarrow> [] | Some info \<Rightarrow> bi_commit info)\<rparr>) (bs_all branches)))\<rparr>"
  using run unfolding gitBranchList_def
proof (cases rule: checked_cases)
  case (check_fault e)
  with summary show ?thesis by simp
next
  case not_repo
  with summary show ?thesis by simp
next
  case (proceed w1 rb w2)
  from branch_list_body[OF proceed(1)[unfolded Let_def]] proceed(2) summary
  show ?thesis by auto
qed

lemma returned_not_faulted: "list_all returned new \<Longrightarrow> (p, Faulted m) \<notin> set new"
  by (auto simp: list_all_iff returned_def)

section \<open>Evaluation on the fixtures\<close>

lemma show_nat_digit: "n < 10 \<Longrightarrow> show_nat n = [digit n]"
  by (simp add: show_nat.simps)

lemmas eval_defs = observe_def getGit_def gitTools_getGit_def verifyGitRepo_def recording_simps logged_apply
  io_defs MockGitProvider_def notARepository_def mock_def posix_def or_string_def Let_def
  truthy_string_def truthy_bool_def truthy_number_def truthy_list_def str_def list_of_def calls_def
  show_nat_digit digit_def show_int_def quoted_def

section \<open>The catalog\<close>

text \<open>
  Claim C1, as the code has it: the catalog holds exactly 25 descriptors (not 29), one
  per operation: their names are the keys of the handler table, in the same order and
  pairwise distinct. Every descriptor names its accepted parameters, every parameter it
  marks required is among them, and \<^verbatim>\<open>git_clone\<close> requires \<^verbatim>\<open>url\<close>, \<^verbatim>\<open>git_commit\<close>
  requires \<^verbatim>\<open>message\<close>, \<^verbatim>\<open>git_branch_create\<close> requires \<^verbatim>\<open>branchName\<close>.
\<close>

theorem catalog_has_25_tools:
  "length tools = 25
   \<and> map tool_name tools = map fst (toolHandlers node sg)
   \<and> distinct (map tool_name tools)
   \<and> list_all (\<lambda>t. list_all (\<lambda>r. r \<in> set (accepted_params t)) (required_params t)) tools
   \<and> map_option required_params (find_tool ''git_clone'') = Some [''url'']
   \<and> map_option required_params (find_tool ''git_commit'') = Some [''message'']
   \<and> map_option required_params (find_tool ''git_branch_create'') = Some [''branchName'']"
proof -
  have 1: "length tools = 25" by (simp add: tools_def)
  have 2: "map tool_name tools = map fst (toolHandlers node sg)"
    by (simp add: tools_def toolHandlers_def)
  have 3: "distinct (map tool_name tools)" by (simp add: tools_def)
  have 4: "list_all (\<lambda>t. list_all (\<lambda>r. r \<in> set (accepted_params t)) (required_params t)) tools"
    by (simp add: tools_def accepted_params_def required_params_def)
  have 5: "map_option required_params (find_tool ''git_clone'') = Some [''url'']"
    by (simp add: tools_def find_tool_def required_params_def)
  have 6: "map_option required_params (find_tool ''git_commit'') = Some [''message'']"
    by (simp add: tools_def find_tool_def required_params_def)
  have 7: "map_option required_params (find_tool ''git_branch_create'') = Some [''branchName'']"
    by (simp add: tools_def find_tool_def required_params_def)
  from 1 2 3 4 5 6 7 show ?thesis by blast
qed

text \<open>The theorem at the handler table of a server on the mock provider.\<close>

theorem catalog_has_25_tools_witness:
  "length tools = 25
   \<and> map tool_name tools = map fst (toolHandlers (posix ''/repo'') (\<lambda>path. MockGitProvider (\<lambda>m. False)))
   \<and> map_option required_params (find_tool ''git_clone'') = Some [''url'']"
  using catalog_has_25_tools [of "posix ''/repo''" "\<lambda>path. MockGitProvider (\<lambda>m. False)"] by blast

text \<open>The count the claim states is not the count of the array.\<close>

theorem catalog_not_29_tools: "length tools = 25 \<and> length tools \<noteq> 29"
  by (simp add: tools_def)

section \<open>Faults of the provider\<close>

text \<open>
  Claim C4: for every operation and every provider primitive that raises a fault during
  it, the operation does not rethrow the fault: the run ends with an envelope (the
  result is never a fault), and whenever some call of the trace raised a fault with
  message \<open>m\<close>, that envelope has \<open>success = False\<close>, no \<open>data\<close>, and the message
  is the operation's fixed prefix followed by \<open>m\<close>.
\<close>

theorem faults_become_failure_envelopes:
  assumes run: "observe (invoke node (getGit node (\<lambda>path. recording (sg path))) c) w = (r, tr)"
  shows "(\<exists>e. r = Inr e)
       \<and> (\<forall>p m. (p, Faulted m) \<in> set tr \<longrightarrow>
             r = Inr \<lparr>success = False, message = failure_prefix c @ m, data = None\<rparr>)"
  using invoke_run[OF run]
  by (auto simp: run_shape_def Let_def dest: returned_not_faulted split: if_splits)

text \<open>
  The theorem on \<^verbatim>\<open>gitPush({ force: true, setUpstream: true })\<close> with the mock
  provider set to fail on \<^verbatim>\<open>push\<close>.
\<close>

theorem faults_become_failure_envelopes_witness:
  "observe (invoke (posix ''/repo'')
       (getGit (posix ''/repo'') (\<lambda>path. recording (MockGitProvider (\<lambda>m. m = ''push''))))
       (OpPush None None (Some True) (Some True) None)) ()
     = (Inr \<lparr>success = False, message = ''Failed to push: Mock error for push'', data = None\<rparr>,
        [(CheckIsRepo, Returned (RBool True)),
         (Push None None [''--force'', ''--set-upstream''], Faulted ''Mock error for push'')])"
proof -
  obtain r tr where run: "observe (invoke (posix ''/repo'')
       (getGit (posix ''/repo'') (\<lambda>path. recording (MockGitProvider (\<lambda>m. m = ''push''))))
       (OpPush None None (Some True) (Some True) None)) () = (r, tr)"
    by fastforce
  then have tr: "tr = [(CheckIsRepo, Returned (RBool True)),
         (Push None None [''--force'', ''--set-upstream''], Faulted ''Mock error for push'')]"
    by (simp add: gitPush_def eval_defs)
  from faults_become_failure_envelopes[OF run] tr
  have "r = Inr \<lparr>success = False,
                  message = failure_prefix (OpPush None None (Some True) (Some True) None)
                            @ ''Mock error for push'',
                  data = None\<rparr>"
    by simp
  with run tr show ?thesis by simp
qed

section \<open>A target that is not a repository\<close>

text \<open>
  Claim C3, as the code has it: for every operation that leaves \<^verbatim>\<open>required\<close> at its
  default, if the repository check answers \<^verbatim>\<open>false\<close> the operation returns
  \<open>success = False\<close> with no data and the message
  \<^verbatim>\<open><the operation's prefix>Not a git repository: <path-or-cwd>\<close> (the factory's fault,
  reported by the operation's \<^verbatim>\<open>catch\<close> block), and the repository check is the
  only provider primitive invoked in that call.
\<close>

theorem not_a_repository_reply:
  assumes req: "repository_required c"
    and check: "fst (git_checkIsRepo (sg (or_string (repoPath_of c) (process_cwd node))) w) = Inr False"
    and run: "observe (invoke node (getGit node (\<lambda>path. recording (sg path))) c) w = (r, tr)"
  shows "r = Inr \<lparr>success = False,
                  message = failure_prefix c @ ''Not a git repository: ''
                            @ or_string (repoPath_of c) (process_cwd node),
                  data = None\<rparr>
       \<and> tr = [(CheckIsRepo, Returned (RBool False))]"
  using invoke_run[OF run] req check
  by (auto simp: run_shape_def Let_def)

text \<open>The theorem on \<^verbatim>\<open>gitStatus({})\<close> in a working directory that is no repository.\<close>

theorem not_a_repository_reply_witness:
  "repository_required (OpStatus None)
   \<and> fst (git_checkIsRepo notARepository ()) = Inr False
   \<and> observe (invoke (posix ''/home/u'') (getGit (posix ''/home/u'') (\<lambda>path. recording notARepository))
        (OpStatus None)) ()
     = (Inr \<lparr>success = False, message = ''Failed to get status: Not a git repository: /home/u'',
              data = None\<rparr>,
        [(CheckIsRepo, Returned (RBool False))])"
proof -
  have req: "repository_required (OpStatus None)" by (simp add: repository_required_def)
  have check: "fst (git_checkIsRepo notARepository ()) = Inr False"
    by (simp add: notARepository_def ret_def)
  obtain r tr where run: "observe (invoke (posix ''/home/u'')
       (getGit (posix ''/home/u'') (\<lambda>path. recording notARepository)) (OpStatus None)) () = (r, tr)"
    by fastforce
  from not_a_repository_reply[OF req _ run] check
  have "r = Inr \<lparr>success = False, message = ''Failed to get status: Not a git repository: /home/u'',
              data = None\<rparr> \<and> tr = [(CheckIsRepo, Returned (RBool False))]"
    by (simp add: posix_def or_string_def)
  with run req check show ?thesis by simp
qed

text \<open>
  \<^verbatim>\<open>gitBranchList({ repoPath: "/tmp/x" })\<close> where \<^verbatim>\<open>/tmp/x\<close> is no repository: the
  message is not the bare \<^verbatim>\<open>Not a git repository: /tmp/x\<close>, and the repository check
  was invoked on the provider.
\<close>

theorem not_a_repository_message_is_prefixed:
  "observe (gitBranchList (getGit (posix ''/home/u'') (\<lambda>path. recording notARepository)) (Some ''/tmp/x'')) ()
     = (Inr \<lparr>success = False, message = ''Failed to list branches: Not a git repository: /tmp/x'',
              data = None\<rparr>,
        [(CheckIsRepo, Returned (RBool False))])
   \<and> ''Failed to list branches: Not a git repository: /tmp/x'' \<noteq> ''Not a git repository: /tmp/x''"
  by (simp add: gitBranchList_def eval_defs)

section \<open>Commit\<close>

text \<open>
  Claim C6: for every \<^verbatim>\<open>gitCommit\<close> call with a non-empty \<^verbatim>\<open>files\<close> list, in the
  modular operation and in the single-file one alike, the run is one of five, told
  apart by what the provider answers. The repository check raises a fault, or answers
  \<^verbatim>\<open>false\<close>: nothing else is called and the envelope is a failure. The check answers
  \<^verbatim>\<open>true\<close>: the \<^verbatim>\<open>add\<close> primitive is invoked next, with exactly the files; if it raises
  a fault the envelope is the failure \<^verbatim>\<open>Failed to commit: <fault>\<close> and nothing else is
  called; if it returns, the \<^verbatim>\<open>commit\<close> primitive is invoked next, with the message
  (and \<^verbatim>\<open>--amend\<close> iff \<^verbatim>\<open>amend\<close>); if that raises a fault the envelope is again the
  failure, and if it returns a result, the envelope is a success whose \<^verbatim>\<open>data.commit\<close>
  is the identifier of that result and whose message is
  \<^verbatim>\<open>Committed changes: <identifier>\<close>.
\<close>

theorem commit_stages_files_first:
  assumes files: "files \<noteq> []"
    and run: "observe (gitCommit (getGit node (\<lambda>path. recording (sg path))) msg (Some files) amend repoPath) w
                = (r, tr)"
    and run': "observe (gitTools_gitCommit node (\<lambda>path. recording (sg path)) msg (Some files) amend repoPath) w
                = (r', tr')"
  shows "let base = or_string repoPath (process_cwd node);
             options = (if truthy_bool amend then [''--amend''] else []);
             checked = (CheckIsRepo, Returned (RBool True));
             staged = (Add files, Returned RVoid);
             failure = (\<lambda>reason. Inr \<lparr>success = False, message = reason, data = None\<rparr>);
             committed = (\<lambda>res. Inr \<lparr>success = True,
                            message = ''Committed changes: '' @ cr_commit res,
                            data = Some (CommitPayload \<lparr>cd_commit = cr_commit res,
                                                         cd_summary = cr_summary res\<rparr>)\<rparr>)
         in ((\<exists>e. tr = [(CheckIsRepo, Faulted e)] \<and> r = failure (''Failed to commit: '' @ e))
           \<or> (tr = [(CheckIsRepo, Returned (RBool False))]
               \<and> r = failure (''Failed to commit: Not a git repository: '' @ base))
           \<or> (\<exists>e. tr = [checked, (Add files, Faulted e)] \<and> r = failure (''Failed to commit: '' @ e))
           \<or> (\<exists>e. tr = [checked, staged, (Commit msg None options, Faulted e)]
                  \<and> r = failure (''Failed to commit: '' @ e))
           \<or> (\<exists>res. tr = [checked, staged, (Commit msg None options, Returned (RCommit res))]
                  \<and> r = committed res))
          \<and> ((\<exists>e. tr' = [(CheckIsRepo, Faulted e)]
                  \<and> r' = failure (''Error verifying repository: '' @ e))
           \<or> (tr' = [(CheckIsRepo, Returned (RBool False))]
               \<and> r' = failure (''Not a git repository: '' @ base))
           \<or> (\<exists>e. tr' = [checked, (Add files, Faulted e)] \<and> r' = failure (''Failed to commit: '' @ e))
           \<or> (\<exists>e. tr' = [checked, staged, (Commit msg None options, Faulted e)]
                  \<and> r' = failure (''Failed to commit: '' @ e))
           \<or> (\<exists>res. tr' = [checked, staged, (Commit msg None options, Returned (RCommit res))]
                  \<and> r' = committed res))"
proof -
  have new: "(\<exists>e. tr = [(CheckIsRepo, Faulted e)]
                \<and> r = Inr \<lparr>success = False, message = ''Failed to commit: '' @ e, data = None\<rparr>)
           \<or> (tr = [(CheckIsRepo, Returned (RBool False))]
               \<and> r = Inr \<lparr>success = False,
                          message = ''Failed to commit: Not a git repository: ''
                                    @ or_string repoPath (process_cwd node),
                          data = None\<rparr>)
           \<or> (\<exists>e. tr = [(CheckIsRepo, Returned (RBool True)), (Add files, Faulted e)]
                  \<and> r = Inr \<lparr>success = False, message = ''Failed to commit: '' @ e, data = None\<rparr>)
           \<or> (\<exists>e. tr = [(CheckIsRepo, Returned (RBool True)), (Add files, Returned RVoid),
                          (Commit msg None (if truthy_bool amend then [''--amend''] else []), Faulted e)]
                  \<and> r = Inr \<lparr>success = False, message = ''Failed to commit: '' @ e, data = None\<rparr>)
           \<or> (\<exists>res. tr = [(CheckIsRepo, Returned (RBool True)), (Add files, Returned RVoid),
                            (Commit msg None (if truthy_bool amend then [''--amend''] else []),
                             Returned (RCommit res))]
                  \<and> r = Inr \<lparr>success = True,
                            message = ''Committed changes: '' @ cr_commit res,
                            data = Some (CommitPayload \<lparr>cd_commit = cr_commit res,
                                                         cd_summary = cr_summary res\<rparr>)\<rparr>)"
    using run unfolding gitCommit_def
  proof (cases rule: checked_cases)
    case (check_fault e)
    then show ?thesis by simp
  next
    case not_repo
    then show ?thesis by simp
  next
    case (proceed w1 rb w2)
    from commit_body[OF files proceed(1)[unfolded Let_def]] proceed(2)
    show ?thesis by auto
  qed
  have old: "(\<exists>e. tr' = [(CheckIsRepo, Faulted e)]
                \<and> r' = Inr \<lparr>success = False, message = ''Error verifying repository: '' @ e,
                           data = None\<rparr>)
           \<or> (tr' = [(CheckIsRepo, Returned (RBool False))]
               \<and> r' = Inr \<lparr>success = False,
                          message = ''Not a git repository: '' @ or_string repoPath (process_cwd node),
                          data = None\<rparr>)
           \<or> (\<exists>e. tr' = [(CheckIsRepo, Returned (RBool True)), (Add files, Faulted e)]
                  \<and> r' = Inr \<lparr>success = False, message = ''Failed to commit: '' @ e, data = None\<rparr>)
           \<or> (\<exists>e. tr' = [(CheckIsRepo, Returned (RBool True)), (Add files, Returned RVoid),
                          (Commit msg None (if truthy_bool amend then [''--amend''] else []), Faulted e)]
                  \<and> r' = Inr \<lparr>success = False, message = ''Failed to commit: '' @ e, data = None\<rparr>)
           \<or> (\<exists>res. tr' = [(CheckIsRepo, Returned (RBool True)), (Add files, Returned RVoid),
                            (Commit msg None (if truthy_bool amend then [''--amend''] else []),
                             Returned (RCommit res))]
                  \<and> r' = Inr \<lparr>success = True,
                            message = ''Committed changes: '' @ cr_commit res,
                            data = Some (CommitPayload \<lparr>cd_commit = cr_commit res,
                                                         cd_summary = cr_summary res\<rparr>)\<rparr>)"
    using run' unfolding gitTools_gitCommit_def
  proof (cases rule: legacy_cases)
    case (check_fault e)
    then show ?thesis by simp
  next
    case not_repo
    then show ?thesis by simp
  next
    case (proceed w1 rb w2)
    from commit_body[OF files proceed(1)[unfolded Let_def gitTools_getGit_def]] proceed(2)
    show ?thesis by auto
  qed
  from new old show ?thesis
    unfolding Let_def by (simp only: simp_thms)
qed

text \<open>The theorem on \<^verbatim>\<open>gitCommit({ message: "m", files: ["a.ts"] })\<close> with the mock provider.\<close>

theorem commit_stages_files_first_witness:
  "[''a.ts''] \<noteq> []
   \<and> observe (gitCommit (getGit (posix ''/repo'') (\<lambda>path. recording (MockGitProvider (\<lambda>m. False)))) ''m'' (Some [''a.ts'']) None None) ()
     = (Inr \<lparr>success = True, message = ''Committed changes: def456'',
          data = Some (CommitPayload \<lparr>cd_commit = ''def456'',
                   cd_summary = \<lparr>cs_changes = 1, cs_insertions = 1, cs_deletions = 0\<rparr>\<rparr>)\<rparr>,
        [(CheckIsRepo, Returned (RBool True)), (Add [''a.ts''], Returned RVoid),
         (Commit ''m'' None [], Returned (RCommit mockCommitResult))])
   \<and> observe (gitTools_gitCommit (posix ''/repo'') (\<lambda>path. recording (MockGitProvider (\<lambda>m. False))) ''m'' (Some [''a.ts'']) None None) ()
     = (Inr \<lparr>success = True, message = ''Committed changes: def456'',
          data = Some (CommitPayload \<lparr>cd_commit = ''def456'',
                   cd_summary = \<lparr>cs_changes = 1, cs_insertions = 1, cs_deletions = 0\<rparr>\<rparr>)\<rparr>,
        [(CheckIsRepo, Returned (RBool True)), (Add [''a.ts''], Returned RVoid),
         (Commit ''m'' None [], Returned (RCommit mockCommitResult))])"
proof -
  let ?new = "observe (gitCommit (getGit (posix ''/repo'') (\<lambda>path. recording (MockGitProvider (\<lambda>m. False)))) ''m'' (Some [''a.ts'']) None None) ()"
  let ?old = "observe (gitTools_gitCommit (posix ''/repo'') (\<lambda>path. recording (MockGitProvider (\<lambda>m. False))) ''m'' (Some [''a.ts'']) None None) ()"
  let ?tr = "[(CheckIsRepo, Returned (RBool True)), (Add [''a.ts''], Returned RVoid),
         (Commit ''m'' None [], Returned (RCommit mockCommitResult))]"
  have tr: "snd ?new = ?tr"
    by (simp add: gitCommit_def eval_defs)
  have tr': "snd ?old = ?tr"
    by (simp add: gitTools_gitCommit_def eval_defs)
  have files: "[''a.ts''] \<noteq> []" by simp
  from commit_stages_files_first[OF files surjective_pairing[of ?new] surjective_pairing[of ?old]]
  have "fst ?new = Inr \<lparr>success = True, message = ''Committed changes: '' @ cr_commit mockCommitResult,
          data = Some (CommitPayload \<lparr>cd_commit = cr_commit mockCommitResult,
                                       cd_summary = cr_summary mockCommitResult\<rparr>)\<rparr>"
    and "fst ?old = Inr \<lparr>success = True, message = ''Committed changes: '' @ cr_commit mockCommitResult,
          data = Some (CommitPayload \<lparr>cd_commit = cr_commit mockCommitResult,
                                       cd_summary = cr_summary mockCommitResult\<rparr>)\<rparr>"
    unfolding tr tr' Let_def by simp_all
  with tr tr' show ?thesis
    by (simp add: prod_eq_iff mockCommitResult_def)
qed

section \<open>Stash pop\<close>

text \<open>
  Claim C10: for every \<^verbatim>\<open>gitStashPop\<close> call, in the modular operation and in the
  single-file one alike, the run is one of four, told apart by what the provider
  answers. The repository check raises a fault, or answers \<^verbatim>\<open>false\<close>: nothing else is
  called and the envelope is a failure. The check answers \<^verbatim>\<open>true\<close>: the stash
  primitive is invoked next; when \<^verbatim>\<open>index\<close> is present, index 0 included, it receives
  exactly \<^verbatim>\<open>pop\<close> and \<^verbatim>\<open>stash@\<close> followed by the index, as the runtime prints the
  number, in braces, and when \<^verbatim>\<open>index\<close> is absent it receives exactly \<^verbatim>\<open>['pop']\<close>; if
  it raises a fault the envelope is the failure \<^verbatim>\<open>Failed to pop stash: <fault>\<close>, and
  if it returns the envelope is a success with message \<^verbatim>\<open>Applied stash@\<close> followed by
  the index in braces, respectively \<^verbatim>\<open>Applied most recent stash\<close>.
\<close>

theorem stash_pop_arguments:
  assumes run: "observe (gitStashPop node (getGit node (\<lambda>path. recording (sg path))) index repoPath) w
                  = (r, tr)"
    and run': "observe (gitTools_gitStashPop node (\<lambda>path. recording (sg path)) index repoPath) w
                  = (r', tr')"
  shows "let base = or_string repoPath (process_cwd node);
             options = (case index of None \<Rightarrow> [''pop'']
                        | Some i \<Rightarrow> [''pop'', ''stash@'' @ ''{'' @ number_toString node i @ ''}'']);
             applied = (case index of None \<Rightarrow> ''Applied most recent stash''
                        | Some i \<Rightarrow> ''Applied stash@'' @ ''{'' @ number_toString node i @ ''}'');
             checked = (CheckIsRepo, Returned (RBool True));
             failure = (\<lambda>reason. Inr \<lparr>success = False, message = reason, data = None\<rparr>)
         in ((\<exists>e. tr = [(CheckIsRepo, Faulted e)] \<and> r = failure (''Failed to pop stash: '' @ e))
           \<or> (tr = [(CheckIsRepo, Returned (RBool False))]
               \<and> r = failure (''Failed to pop stash: Not a git repository: '' @ base))
           \<or> (\<exists>e. tr = [checked, (Stash options, Faulted e)]
                  \<and> r = failure (''Failed to pop stash: '' @ e))
           \<or> (tr = [checked, (Stash options, Returned RVoid)]
               \<and> r = Inr \<lparr>success = True, message = applied, data = None\<rparr>))
          \<and> ((\<exists>e. tr' = [(CheckIsRepo, Faulted e)]
                  \<and> r' = failure (''Error verifying repository: '' @ e))
           \<or> (tr' = [(CheckIsRepo, Returned (RBool False))]
               \<and> r' = failure (''Not a git repository: '' @ base))
           \<or> (\<exists>e. tr' = [checked, (Stash options, Faulted e)]
                  \<and> r' = failure (''Failed to pop stash: '' @ e))
           \<or> (tr' = [checked, (Stash options, Returned RVoid)]
               \<and> r' = Inr \<lparr>success = True, message = applied, data = None\<rparr>))"
proof -
  define options where "options = (case index of None \<Rightarrow> [''pop'']
                        | Some i \<Rightarrow> [''pop'', ''stash@'' @ ''{'' @ number_toString node i @ ''}''])"
  define applied where "applied = (case index of None \<Rightarrow> ''Applied most recent stash''
                        | Some i \<Rightarrow> ''Applied stash@'' @ ''{'' @ number_toString node i @ ''}'')"
  have opts: "[''pop''] @ (case index of None \<Rightarrow> []
               | Some i \<Rightarrow> [''stash@'' @ ''{'' @ number_toString node i @ ''}'']) = options"
    by (simp add: options_def split: option.splits)
  have new: "(\<exists>e. tr = [(CheckIsRepo, Faulted e)]
                \<and> r = Inr \<lparr>success = False, message = ''Failed to pop stash: '' @ e, data = None\<rparr>)
           \<or> (tr = [(CheckIsRepo, Returned (RBool False))]
               \<and> r = Inr \<lparr>success = False,
                          message = ''Failed to pop stash: Not a git repository: ''
                                    @ or_string repoPath (process_cwd node),
                          data = None\<rparr>)
           \<or> (\<exists>e. tr = [(CheckIsRepo, Returned (RBool True)), (Stash options, Faulted e)]
                  \<and> r = Inr \<lparr>success = False, message = ''Failed to pop stash: '' @ e, data = None\<rparr>)
           \<or> (tr = [(CheckIsRepo, Returned (RBool True)), (Stash options, Returned RVoid)]
               \<and> r = Inr \<lparr>success = True, message = applied, data = None\<rparr>)"
    using run unfolding gitStashPop_def
  proof (cases rule: checked_cases)
    case (check_fault e)
    then show ?thesis by simp
  next
    case not_repo
    then show ?thesis by simp
  next
    case (proceed w1 rb w2)
    from stash_pop_body[OF proceed(1)[unfolded Let_def opts applied_def[symmetric]]] proceed(2)
    show ?thesis by auto
  qed
  have old: "(\<exists>e. tr' = [(CheckIsRepo, Faulted e)]
                \<and> r' = Inr \<lparr>success = False, message = ''Error verifying repository: '' @ e,
                           data = None\<rparr>)
           \<or> (tr' = [(CheckIsRepo, Returned (RBool False))]
               \<and> r' = Inr \<lparr>success = False,
                          message = ''Not a git repository: '' @ or_string repoPath (process_cwd node),
                          data = None\<rparr>)
           \<or> (\<exists>e. tr' = [(CheckIsRepo, Returned (RBool True)), (Stash options, Faulted e)]
                  \<and> r' = Inr \<lparr>success = False, message = ''Failed to pop stash: '' @ e, data = None\<rparr>)
           \<or> (tr' = [(CheckIsRepo, Returned (RBool True)), (Stash options, Returned RVoid)]
               \<and> r' = Inr \<lparr>success = True, message = applied, data = None\<rparr>)"
    using run' unfolding gitTools_gitStashPop_def
  proof (cases rule: legacy_cases)
    case (check_fault e)
    then show ?thesis by simp
  next
    case not_repo
    then show ?thesis by simp
  next
    case (proceed w1 rb w2)
    from stash_pop_body[OF proceed(1)[unfolded Let_def gitTools_getGit_def opts applied_def[symmetric]]]
      proceed(2)
    show ?thesis by auto
  qed
  from new old show ?thesis
    unfolding Let_def options_def[symmetric] applied_def[symmetric] by (simp only: simp_thms)
qed

text \<open>
  The theorem on \<^verbatim>\<open>gitStashPop({ index: 0 })\<close> and on \<^verbatim>\<open>gitStashPop({ index: 12 })\<close> with
  the mock provider.
\<close>

theorem stash_pop_arguments_witness:
  "observe (gitStashPop (posix ''/repo'') (getGit (posix ''/repo'') (\<lambda>path. recording (MockGitProvider (\<lambda>m. False)))) (Some 0) None) ()
     = (Inr \<lparr>success = True, message = ''Applied stash@'' @ ''{0}'', data = None\<rparr>,
        [(CheckIsRepo, Returned (RBool True)), (Stash [''pop'', ''stash@'' @ ''{0}''], Returned RVoid)])
   \<and> observe (gitTools_gitStashPop (posix ''/repo'') (\<lambda>path. recording (MockGitProvider (\<lambda>m. False))) (Some 0) None) ()
     = (Inr \<lparr>success = True, message = ''Applied stash@'' @ ''{0}'', data = None\<rparr>,
        [(CheckIsRepo, Returned (RBool True)), (Stash [''pop'', ''stash@'' @ ''{0}''], Returned RVoid)])
   \<and> observe (gitStashPop (posix ''/repo'') (getGit (posix ''/repo'') (\<lambda>path. recording (MockGitProvider (\<lambda>m. False)))) (Some 12) None) ()
     = (Inr \<lparr>success = True, message = ''Applied stash@'' @ ''{12}'', data = None\<rparr>,
        [(CheckIsRepo, Returned (RBool True)), (Stash [''pop'', ''stash@'' @ ''{12}''], Returned RVoid)])
   \<and> observe (gitTools_gitStashPop (posix ''/repo'') (\<lambda>path. recording (MockGitProvider (\<lambda>m. False))) (Some 12) None) ()
     = (Inr \<lparr>success = True, message = ''Applied stash@'' @ ''{12}'', data = None\<rparr>,
        [(CheckIsRepo, Returned (RBool True)), (Stash [''pop'', ''stash@'' @ ''{12}''], Returned RVoid)])"
proof -
  let ?new = "\<lambda>i. observe (gitStashPop (posix ''/repo'') (getGit (posix ''/repo'') (\<lambda>path. recording (MockGitProvider (\<lambda>m. False)))) (Some i) None) ()"
  let ?old = "\<lambda>i. observe (gitTools_gitStashPop (posix ''/repo'') (\<lambda>path. recording (MockGitProvider (\<lambda>m. False))) (Some i) None) ()"
  have digits: "number_toString (posix ''/repo'') 0 = ''0''" "number_toString (posix ''/repo'') 12 = ''12''"
    by (simp_all add: posix_def show_int_def show_nat.simps digit_def)
  have tr: "snd (?new 0) = [(CheckIsRepo, Returned (RBool True)),
                            (Stash [''pop'', ''stash@'' @ ''{0}''], Returned RVoid)]"
      "snd (?new 12) = [(CheckIsRepo, Returned (RBool True)),
                        (Stash [''pop'', ''stash@'' @ ''{12}''], Returned RVoid)]"
    by (simp_all add: gitStashPop_def eval_defs show_nat.simps)
  have tr': "snd (?old 0) = [(CheckIsRepo, Returned (RBool True)),
                             (Stash [''pop'', ''stash@'' @ ''{0}''], Returned RVoid)]"
      "snd (?old 12) = [(CheckIsRepo, Returned (RBool True)),
                         (Stash [''pop'', ''stash@'' @ ''{12}''], Returned RVoid)]"
    by (simp_all add: gitTools_gitStashPop_def eval_defs show_nat.simps)
  from stash_pop_arguments[OF surjective_pairing[of "?new 0"] surjective_pairing[of "?old 0"]]
  have zero: "fst (?new 0) = Inr \<lparr>success = True, message = ''Applied stash@'' @ ''{0}'', data = None\<rparr>"
    "fst (?old 0) = Inr \<lparr>success = True, message = ''Applied stash@'' @ ''{0}'', data = None\<rparr>"
    unfolding tr tr' Let_def by (simp_all add: digits)
  from stash_pop_arguments[OF surjective_pairing[of "?new 12"] surjective_pairing[of "?old 12"]]
  have twelve: "fst (?new 12) = Inr \<lparr>success = True, message = ''Applied stash@'' @ ''{12}'', data = None\<rparr>"
    "fst (?old 12) = Inr \<lparr>success = True, message = ''Applied stash@'' @ ''{12}'', data = None\<rparr>"
    unfolding tr tr' Let_def by (simp_all add: digits)
  from zero twelve tr tr' show ?thesis by (simp add: prod_eq_iff)
qed

section \<open>Clone\<close>



section \<open>Diff\<close>

text \<open>
  Claim C5, as the code has it: for every \<^verbatim>\<open>gitDiff\<close> call in which \<^verbatim>\<open>fromCommit\<close>
  and \<^verbatim>\<open>toCommit\<close> are both non-empty strings and no entry of \<^verbatim>\<open>files\<close> is itself
  \<^verbatim>\<open>--\<close>, the run is one of five, told apart by what the provider answers. The
  repository check raises a fault, or answers \<^verbatim>\<open>false\<close>: nothing else is called and
  the envelope is a failure. The check answers \<^verbatim>\<open>true\<close>: the diff primitive is invoked
  next, with the argument list \<^verbatim>\<open>--cached\<close> (iff \<^verbatim>\<open>cached\<close>), then the single range
  token \<^verbatim>\<open><fromCommit>..<toCommit>\<close> (with \<^verbatim>\<open>...\<close> exactly when \<^verbatim>\<open>useThreeDotRange\<close>
  is true), then \<^verbatim>\<open>--\<close> and the files (iff \<^verbatim>\<open>files\<close> is non-empty); if it returns,
  the diffSummary primitive is invoked next, with that list with only the \<^verbatim>\<open>--\<close>
  separator removed; a fault of either is reported as \<^verbatim>\<open>Failed to get diff: <fault>\<close>,
  and when both return the envelope is a success with message \<^verbatim>\<open>Diff for <token>\<close>
  whose data holds the summary and the diff text.
\<close>

theorem diff_range_token:
  assumes a: "a \<noteq> []" and b: "b \<noteq> []"
    and plain: "''--'' \<notin> set (list_of files)"
    and run: "observe (gitDiff (getGit node (\<lambda>path. recording (sg path))) files cached (Some a) (Some b)
                 useThreeDotRange repoPath) w = (r, tr)"
  shows "let base = or_string repoPath (process_cwd node);
             token = a @ (if truthy_bool useThreeDotRange then ''...'' else ''..'') @ b;
             args = (if truthy_bool cached then [''--cached''] else []) @ [token]
                    @ (if truthy_list files then ''--'' # list_of files else []);
             checked = (CheckIsRepo, Returned (RBool True));
             failure = (\<lambda>reason. Inr \<lparr>success = False, message = reason, data = None\<rparr>);
             summary = (\<lambda>s. \<lparr>
                ds_files = map (\<lambda>f. \<lparr>
                   df_file = df_file f,
                   df_changes = Some (case df_changes f of None \<Rightarrow> 0 | Some c \<Rightarrow> c),
                   df_insertions = Some (case df_insertions f of None \<Rightarrow> 0 | Some c \<Rightarrow> c),
                   df_deletions = Some (case df_deletions f of None \<Rightarrow> 0 | Some c \<Rightarrow> c),
                   df_binary = df_binary f\<rparr>) (ds_files s),
                ds_insertions = ds_insertions s,
                ds_deletions = ds_deletions s,
                ds_changed = ds_changed s\<rparr>)
         in (\<exists>e. tr = [(CheckIsRepo, Faulted e)] \<and> r = failure (''Failed to get diff: '' @ e))
          \<or> (tr = [(CheckIsRepo, Returned (RBool False))]
              \<and> r = failure (''Failed to get diff: Not a git repository: '' @ base))
          \<or> (\<exists>e. tr = [checked, (Diff args, Faulted e)] \<and> r = failure (''Failed to get diff: '' @ e))
          \<or> (\<exists>d e. tr = [checked, (Diff args, Returned (RText d)),
                          (DiffSummary (remove1 ''--'' args), Faulted e)]
                 \<and> r = failure (''Failed to get diff: '' @ e))
          \<or> (\<exists>d s. tr = [checked, (Diff args, Returned (RText d)),
                          (DiffSummary (remove1 ''--'' args), Returned (RDiffSummary s))]
                 \<and> r = Inr \<lparr>success = True, message = ''Diff for '' @ token,
                           data = Some (DiffPayload \<lparr>dr_summary = summary s, dr_diff = d\<rparr>)\<rparr>)"
proof -
  define token where "token = a @ (if truthy_bool useThreeDotRange then ''...'' else ''..'') @ b"
  define args where "args = (if truthy_bool cached then [''--cached''] else []) @ [token]
                    @ (if truthy_list files then ''--'' # list_of files else [])"
  define summary :: "GitDiffSummary \<Rightarrow> GitDiffSummary" where "summary = (\<lambda>s. \<lparr>
                ds_files = map (\<lambda>f. \<lparr>
                   df_file = df_file f,
                   df_changes = Some (case df_changes f of None \<Rightarrow> 0 | Some c \<Rightarrow> c),
                   df_insertions = Some (case df_insertions f of None \<Rightarrow> 0 | Some c \<Rightarrow> c),
                   df_deletions = Some (case df_deletions f of None \<Rightarrow> 0 | Some c \<Rightarrow> c),
                   df_binary = df_binary f\<rparr>) (ds_files s),
                ds_insertions = ds_insertions s,
                ds_deletions = ds_deletions s,
                ds_changed = ds_changed s\<rparr>)"
  have t: "truthy_string (Some a)" "truthy_string (Some b)" "str (Some a) = a" "str (Some b) = b"
    using a b by (simp_all add: truthy_string_def str_def)
  have args: "diffArgs files cached (Some a) (Some b) useThreeDotRange = args"
    by (simp add: diffArgs_def t args_def token_def Let_def)
  have msg: "diffMessage files cached (Some a) (Some b) useThreeDotRange = ''Diff for '' @ token"
    by (simp add: diffMessage_def t token_def Let_def)
  have sep: "token \<noteq> ''--''"
    unfolding token_def using a b by (rule range_not_separator)
  have only: "filter (\<lambda>arg. arg \<noteq> ''--'') args = remove1 ''--'' args"
    using sep plain by (auto simp: args_def remove1_append filter_id_conv)
  have "(\<exists>e. tr = [(CheckIsRepo, Faulted e)]
             \<and> r = Inr \<lparr>success = False, message = ''Failed to get diff: '' @ e, data = None\<rparr>)
          \<or> (tr = [(CheckIsRepo, Returned (RBool False))]
              \<and> r = Inr \<lparr>success = False,
                         message = ''Failed to get diff: Not a git repository: ''
                                   @ or_string repoPath (process_cwd node),
                         data = None\<rparr>)
          \<or> (\<exists>e. tr = [(CheckIsRepo, Returned (RBool True)), (Diff args, Faulted e)]
                 \<and> r = Inr \<lparr>success = False, message = ''Failed to get diff: '' @ e, data = None\<rparr>)
          \<or> (\<exists>d e. tr = [(CheckIsRepo, Returned (RBool True)), (Diff args, Returned (RText d)),
                          (DiffSummary (remove1 ''--'' args), Faulted e)]
                 \<and> r = Inr \<lparr>success = False, message = ''Failed to get diff: '' @ e, data = None\<rparr>)
          \<or> (\<exists>d s. tr = [(CheckIsRepo, Returned (RBool True)), (Diff args, Returned (RText d)),
                          (DiffSummary (remove1 ''--'' args), Returned (RDiffSummary s))]
                 \<and> r = Inr \<lparr>success = True, message = ''Diff for '' @ token,
                           data = Some (DiffPayload \<lparr>dr_summary = summary s, dr_diff = d\<rparr>)\<rparr>)"
    using run unfolding gitDiff_def
  proof (cases rule: checked_cases)
    case (check_fault e)
    then show ?thesis by simp
  next
    case not_repo
    then show ?thesis by simp
  next
    case (proceed w1 rb w2)
    from diff_body[OF proceed(1)[unfolded Let_def args msg only]] proceed(2)
    show ?thesis by (auto simp: summary_def)
  qed
  then show ?thesis
    unfolding Let_def token_def[symmetric] args_def[symmetric] summary_def[symmetric]
    by (simp only: simp_thms)
qed

text \<open>
  The theorem on
  \<^verbatim>\<open>gitDiff({ fromCommit: "abc123", toCommit: "def456", useThreeDotRange: true, files: ["a.ts"] })\<close>
  with the mock provider.
\<close>

theorem diff_range_token_witness:
  "''abc123'' \<noteq> [] \<and> ''def456'' \<noteq> [] \<and> ''--'' \<notin> set (list_of (Some [''a.ts'']))
   \<and> snd (observe (gitDiff (getGit (posix ''/repo'') (\<lambda>path. recording (MockGitProvider (\<lambda>m. False))))
             (Some [''a.ts'']) None (Some ''abc123'') (Some ''def456'') (Some True) None) ())
     = [(CheckIsRepo, Returned (RBool True)),
        (Diff [''abc123...def456'', ''--'', ''a.ts''], Returned (RText mockDiffOutput)),
        (DiffSummary [''abc123...def456'', ''a.ts''], Returned (RDiffSummary mockDiffSummary))]
   \<and> (\<exists>e. fst (observe (gitDiff (getGit (posix ''/repo'') (\<lambda>path. recording (MockGitProvider (\<lambda>m. False))))
             (Some [''a.ts'']) None (Some ''abc123'') (Some ''def456'') (Some True) None) ()) = Inr e
          \<and> success e \<and> message e = ''Diff for abc123...def456'')"
proof -
  let ?run = "observe (gitDiff (getGit (posix ''/repo'') (\<lambda>path. recording (MockGitProvider (\<lambda>m. False))))
             (Some [''a.ts'']) None (Some ''abc123'') (Some ''def456'') (Some True) None) ()"
  have a: "''abc123'' \<noteq> []" and b: "''def456'' \<noteq> []" by simp_all
  have plain: "''--'' \<notin> set (list_of (Some [''a.ts'']))" by (simp add: list_of_def)
  have tr: "snd ?run = [(CheckIsRepo, Returned (RBool True)),
        (Diff [''abc123...def456'', ''--'', ''a.ts''], Returned (RText mockDiffOutput)),
        (DiffSummary [''abc123...def456'', ''a.ts''], Returned (RDiffSummary mockDiffSummary))]"
    by (simp add: gitDiff_def diffArgs_def eval_defs)
  from diff_range_token[OF a b plain surjective_pairing[of ?run]]
  have "\<exists>e. fst ?run = Inr e \<and> success e \<and> message e = ''Diff for abc123...def456''"
    unfolding tr Let_def by (simp add: truthy_bool_def truthy_list_def list_of_def)
  with a b plain tr show ?thesis by simp
qed

text \<open>
  Two calls in which both commits are supplied and the claim's wording fails.
  \<^verbatim>\<open>gitDiff({ fromCommit: "abc123", toCommit: "def456", files: ["--"] })\<close>: the diffSummary
  primitive is not called with the diff arguments less the separator, because the file
  named \<^verbatim>\<open>--\<close> is dropped too.
  \<^verbatim>\<open>gitDiff({ fromCommit: "", toCommit: "def456" })\<close>: the empty \<^verbatim>\<open>fromCommit\<close> counts as
  not given, and the diff primitive receives \<^verbatim>\<open>def456\<close> alone, not the range token
  \<^verbatim>\<open>..def456\<close>.
\<close>

theorem diff_arguments_outside_the_claim:
  "calls (snd (observe (gitDiff (getGit (posix ''/repo'') (\<lambda>path. recording (MockGitProvider (\<lambda>m. False)))) (Some [''--'']) None (Some ''abc123'') (Some ''def456'')
                  None None) ()))
     = [CheckIsRepo, Diff [''abc123..def456'', ''--'', ''--''], DiffSummary [''abc123..def456'']]
   \<and> [''abc123..def456''] \<noteq> remove1 ''--'' [''abc123..def456'', ''--'', ''--'']
   \<and> calls (snd (observe (gitDiff (getGit (posix ''/repo'') (\<lambda>path. recording (MockGitProvider (\<lambda>m. False)))) None None (Some []) (Some ''def456'') None None) ()))
     = [CheckIsRepo, Diff [''def456''], DiffSummary [''def456'']]
   \<and> [] @ ''..'' @ ''def456'' \<notin> set [''def456'']"
  by (simp add: gitDiff_def diffArgs_def eval_defs)

section \<open>Branch list\<close>

text \<open>
  Claim C8: \<^verbatim>\<open>gitBranchList\<close> is deterministic in its provider snapshot: whenever it is
  invoked twice in succession (the second call from the state the first one left) and
  the provider's branch primitive returned the same branch summary in both calls, the
  two calls yield identical response envelopes, and that envelope is a success.
\<close>

theorem branch_list_deterministic:
  assumes first: "gitBranchList (getGit node (\<lambda>path. recording (sg path))) repoPath (w0, []) = (r1, (w1, tr1))"
    and second: "gitBranchList (getGit node (\<lambda>path. recording (sg path))) repoPath (w1, []) = (r2, (w2, tr2))"
    and same1: "(BranchSummary, Returned (RBranches branches)) \<in> set tr1"
    and same2: "(BranchSummary, Returned (RBranches branches)) \<in> set tr2"
  shows "r1 = r2 \<and> (\<exists>e. r1 = Inr e \<and> success e)"
proof -
  from first have "observe (gitBranchList (getGit node (\<lambda>path. recording (sg path))) repoPath) w0 = (r1, tr1)"
    by (auto simp: observe_eq)
  from branch_list_result[OF this same1] have 1: "r1 = Inr \<lparr>success = True,
           message = ''Found '' @ show_nat (length (bs_all branches)) @ '' branches'',
           data = Some (BranchListPayload (map (\<lambda>name. \<lparr>
            b_name = name,
            b_current = (name = bs_current branches),
            b_commit = (case bs_branches branches name of
                          None \<Rightarrow> [] | Some info \<Rightarrow> bi_commit info)\<rparr>) (bs_all branches)))\<rparr>" .
  from second have "observe (gitBranchList (getGit node (\<lambda>path. recording (sg path))) repoPath) w1 = (r2, tr2)"
    by (auto simp: observe_eq)
  from branch_list_result[OF this same2] 1 show ?thesis by simp
qed

text \<open>The theorem on two successive \<^verbatim>\<open>gitBranchList({})\<close> calls with the mock provider.\<close>

theorem branch_list_deterministic_witness:
  "gitBranchList (getGit (posix ''/repo'') (\<lambda>path. recording (MockGitProvider (\<lambda>m. False)))) None ((), [])
     = (Inr \<lparr>success = True, message = ''Found 1 branches'',
          data = Some (BranchListPayload
                   [\<lparr>b_name = ''main'', b_current = True, b_commit = ''abc123''\<rparr>])\<rparr>,
        ((), [(CheckIsRepo, Returned (RBool True)),
              (BranchSummary, Returned (RBranches mockBranches))]))
   \<and> (BranchSummary, Returned (RBranches mockBranches))
       \<in> set [(CheckIsRepo, Returned (RBool True)), (BranchSummary, Returned (RBranches mockBranches))]
   \<and> (\<exists>e. fst (gitBranchList (getGit (posix ''/repo'') (\<lambda>path. recording (MockGitProvider (\<lambda>m. False)))) None ((), [])) = Inr e \<and> success e)"
proof -
  let ?tr = "[(CheckIsRepo, Returned (RBool True)), (BranchSummary, Returned (RBranches mockBranches))]"
  let ?e = "\<lparr>success = True, message = ''Found 1 branches'',
          data = Some (BranchListPayload
                   [\<lparr>b_name = ''main'', b_current = True, b_commit = ''abc123''\<rparr>])\<rparr>"
  have run: "gitBranchList (getGit (posix ''/repo'') (\<lambda>path. recording (MockGitProvider (\<lambda>m. False)))) None ((), []) = (Inr ?e, ((), ?tr))"
    by (simp add: gitBranchList_def eval_defs mockBranches_def)
  have summary: "(BranchSummary, Returned (RBranches mockBranches)) \<in> set ?tr" by simp
  from branch_list_deterministic[OF run run summary summary]
  have "\<exists>e. Inr ?e = Inr e \<and> success e" by simp
  with run summary show ?thesis by simp
qed

section \<open>Log\<close>

text \<open>
  Claim C7, as the code has it: for every \<^verbatim>\<open>gitLog\<close> call whose \<^verbatim>\<open>maxCount\<close> is absent
  or not 0, in the modular operation and in the single-file one alike, the run is one of
  four, told apart by what the provider answers. The repository check raises a fault,
  or answers \<^verbatim>\<open>false\<close>: nothing else is called and the envelope is a failure. The check
  answers \<^verbatim>\<open>true\<close>: the log primitive is invoked next, with options that carry
  \<^verbatim>\<open>maxCount\<close> as given (set verbatim when present, unset when absent) and \<^verbatim>\<open>file\<close>
  verbatim when it is a non-empty string (unset when it is absent or empty); if it raises
  a fault the envelope is the failure \<^verbatim>\<open>Failed to get log: <fault>\<close>, and if it returns
  a result the envelope is a success whose data holds, for each commit of the result and
  in the same order, a record of its hash, date, message, author name and author email,
  without the body and the refs.
\<close>

theorem log_options_and_records:
  assumes count: "maxCount \<noteq> Some 0"
    and run: "observe (gitLog (getGit node (\<lambda>path. recording (sg path))) maxCount file repoPath) w = (r, tr)"
    and run': "observe (gitTools_gitLog node (\<lambda>path. recording (sg path)) maxCount file repoPath) w
                = (r', tr')"
  shows "let base = or_string repoPath (process_cwd node);
             options = \<lparr>lo_maxCount = maxCount, lo_file = (if file = Some [] then None else file)\<rparr>;
             checked = (CheckIsRepo, Returned (RBool True));
             failure = (\<lambda>reason. Inr \<lparr>success = False, message = reason, data = None\<rparr>);
             retrieved = (\<lambda>res. Inr \<lparr>success = True,
                        message = ''Retrieved '' @ show_nat (length (lr_all res)) @ '' commit(s)'',
                        data = Some (LogPayload (map (\<lambda>commit. \<lparr>
                                 ci_hash = gc_hash commit,
                                 ci_date = gc_date commit,
                                 ci_message = gc_message commit,
                                 ci_author_name = gc_author_name commit,
                                 ci_author_email = gc_author_email commit\<rparr>) (lr_all res)))\<rparr>)
         in ((\<exists>e. tr = [(CheckIsRepo, Faulted e)] \<and> r = failure (''Failed to get log: '' @ e))
           \<or> (tr = [(CheckIsRepo, Returned (RBool False))]
               \<and> r = failure (''Failed to get log: Not a git repository: '' @ base))
           \<or> (\<exists>e. tr = [checked, (Log options, Faulted e)] \<and> r = failure (''Failed to get log: '' @ e))
           \<or> (\<exists>res. tr = [checked, (Log options, Returned (RLog res))] \<and> r = retrieved res))
          \<and> ((\<exists>e. tr' = [(CheckIsRepo, Faulted e)]
                  \<and> r' = failure (''Error verifying repository: '' @ e))
           \<or> (tr' = [(CheckIsRepo, Returned (RBool False))]
               \<and> r' = failure (''Not a git repository: '' @ base))
           \<or> (\<exists>e. tr' = [checked, (Log options, Faulted e)] \<and> r' = failure (''Failed to get log: '' @ e))
           \<or> (\<exists>res. tr' = [checked, (Log options, Returned (RLog res))] \<and> r' = retrieved res))"
proof -
  define options where
    "options = \<lparr>lo_maxCount = maxCount, lo_file = (if file = Some [] then None else file)\<rparr>"
  define retrieved :: "GitLogResult \<Rightarrow> string + envelope" where
    "retrieved = (\<lambda>res. Inr \<lparr>success = True,
                        message = ''Retrieved '' @ show_nat (length (lr_all res)) @ '' commit(s)'',
                        data = Some (LogPayload (map (\<lambda>commit. \<lparr>
                                 ci_hash = gc_hash commit,
                                 ci_date = gc_date commit,
                                 ci_message = gc_message commit,
                                 ci_author_name = gc_author_name commit,
                                 ci_author_email = gc_author_email commit\<rparr>) (lr_all res)))\<rparr>)"
  have opts: "\<lparr>lo_maxCount = (if truthy_number maxCount then maxCount else None),
              lo_file = (if truthy_string file then file else None)\<rparr> = options"
    using count by (auto simp: options_def truthy_number_def truthy_string_def split: option.splits)
  have new: "(\<exists>e. tr = [(CheckIsRepo, Faulted e)]
                \<and> r = Inr \<lparr>success = False, message = ''Failed to get log: '' @ e, data = None\<rparr>)
           \<or> (tr = [(CheckIsRepo, Returned (RBool False))]
               \<and> r = Inr \<lparr>success = False,
                          message = ''Failed to get log: Not a git repository: ''
                                    @ or_string repoPath (process_cwd node),
                          data = None\<rparr>)
           \<or> (\<exists>e. tr = [(CheckIsRepo, Returned (RBool True)), (Log options, Faulted e)]
                  \<and> r = Inr \<lparr>success = False, message = ''Failed to get log: '' @ e, data = None\<rparr>)
           \<or> (\<exists>res. tr = [(CheckIsRepo, Returned (RBool True)), (Log options, Returned (RLog res))]
                  \<and> r = retrieved res)"
    using run unfolding gitLog_def
  proof (cases rule: checked_cases)
    case (check_fault e)
    then show ?thesis by simp
  next
    case not_repo
    then show ?thesis by simp
  next
    case (proceed w1 rb w2)
    from log_body[OF proceed(1)[unfolded Let_def opts]] proceed(2)
    show ?thesis by (auto simp: retrieved_def)
  qed
  have old: "(\<exists>e. tr' = [(CheckIsRepo, Faulted e)]
                \<and> r' = Inr \<lparr>success = False, message = ''Error verifying repository: '' @ e,
                           data = None\<rparr>)
           \<or> (tr' = [(CheckIsRepo, Returned (RBool False))]
               \<and> r' = Inr \<lparr>success = False,
                          message = ''Not a git repository: '' @ or_string repoPath (process_cwd node),
                          data = None\<rparr>)
           \<or> (\<exists>e. tr' = [(CheckIsRepo, Returned (RBool True)), (Log options, Faulted e)]
                  \<and> r' = Inr \<lparr>success = False, message = ''Failed to get log: '' @ e, data = None\<rparr>)
           \<or> (\<exists>res. tr' = [(CheckIsRepo, Returned (RBool True)), (Log options, Returned (RLog res))]
                  \<and> r' = retrieved res)"
    using run' unfolding gitTools_gitLog_def
  proof (cases rule: legacy_cases)
    case (check_fault e)
    then show ?thesis by simp
  next
    case not_repo
    then show ?thesis by simp
  next
    case (proceed w1 rb w2)
    from log_body[OF proceed(1)[unfolded Let_def gitTools_getGit_def opts]] proceed(2)
    show ?thesis by (auto simp: retrieved_def)
  qed
  from new old show ?thesis
    unfolding Let_def options_def[symmetric] retrieved_def[symmetric] by (simp only: simp_thms)
qed

text \<open>
  The theorem on \<^verbatim>\<open>gitLog({ maxCount: 5, file: "a.ts" })\<close> with the mock provider, whose
  log holds one commit.
\<close>

theorem log_options_and_records_witness:
  "Some 5 \<noteq> Some (0::int)
   \<and> observe (gitLog (getGit (posix ''/repo'') (\<lambda>path. recording (MockGitProvider (\<lambda>m. False))))
        (Some 5) (Some ''a.ts'') None) ()
     = (Inr \<lparr>success = True, message = ''Retrieved 1 commit(s)'',
          data = Some (LogPayload [\<lparr>ci_hash = ''abc123'', ci_date = ''2024-01-01'',
                   ci_message = ''Initial commit'', ci_author_name = ''Test User'',
                   ci_author_email = ''test@example.com''\<rparr>])\<rparr>,
        [(CheckIsRepo, Returned (RBool True)),
         (Log \<lparr>lo_maxCount = Some 5, lo_file = Some ''a.ts''\<rparr>,
          Returned (RLog \<lparr>lr_all = mockCommits, lr_total = 1, lr_latest = Some (hd mockCommits)\<rparr>))])
   \<and> observe (gitTools_gitLog (posix ''/repo'') (\<lambda>path. recording (MockGitProvider (\<lambda>m. False)))
        (Some 5) (Some ''a.ts'') None) ()
     = (Inr \<lparr>success = True, message = ''Retrieved 1 commit(s)'',
          data = Some (LogPayload [\<lparr>ci_hash = ''abc123'', ci_date = ''2024-01-01'',
                   ci_message = ''Initial commit'', ci_author_name = ''Test User'',
                   ci_author_email = ''test@example.com''\<rparr>])\<rparr>,
        [(CheckIsRepo, Returned (RBool True)),
         (Log \<lparr>lo_maxCount = Some 5, lo_file = Some ''a.ts''\<rparr>,
          Returned (RLog \<lparr>lr_all = mockCommits, lr_total = 1, lr_latest = Some (hd mockCommits)\<rparr>))])"
proof -
  let ?new = "observe (gitLog (getGit (posix ''/repo'') (\<lambda>path. recording (MockGitProvider (\<lambda>m. False))))
        (Some 5) (Some ''a.ts'') None) ()"
  let ?old = "observe (gitTools_gitLog (posix ''/repo'') (\<lambda>path. recording (MockGitProvider (\<lambda>m. False)))
        (Some 5) (Some ''a.ts'') None) ()"
  let ?res = "\<lparr>lr_all = mockCommits, lr_total = 1, lr_latest = Some (hd mockCommits)\<rparr>"
  let ?tr = "[(CheckIsRepo, Returned (RBool True)),
         (Log \<lparr>lo_maxCount = Some 5, lo_file = Some ''a.ts''\<rparr>, Returned (RLog ?res))]"
  have tr: "snd ?new = ?tr"
    by (simp add: gitLog_def eval_defs mockCommits_def)
  have tr': "snd ?old = ?tr"
    by (simp add: gitTools_gitLog_def eval_defs mockCommits_def)
  have count: "Some 5 \<noteq> Some (0::int)" by simp
  from log_options_and_records[OF count surjective_pairing[of ?new] surjective_pairing[of ?old]]
  have "fst ?new = Inr \<lparr>success = True,
                        message = ''Retrieved '' @ show_nat (length (lr_all ?res)) @ '' commit(s)'',
                        data = Some (LogPayload (map (\<lambda>commit. \<lparr>
                                 ci_hash = gc_hash commit,
                                 ci_date = gc_date commit,
                                 ci_message = gc_message commit,
                                 ci_author_name = gc_author_name commit,
                                 ci_author_email = gc_author_email commit\<rparr>) (lr_all ?res)))\<rparr>"
    and "fst ?old = Inr \<lparr>success = True,
                        message = ''Retrieved '' @ show_nat (length (lr_all ?res)) @ '' commit(s)'',
                        data = Some (LogPayload (map (\<lambda>commit. \<lparr>
                                 ci_hash = gc_hash commit,
                                 ci_date = gc_date commit,
                                 ci_message = gc_message commit,
                                 ci_author_name = gc_author_name commit,
                                 ci_author_email = gc_author_email commit\<rparr>) (lr_all ?res)))\<rparr>"
    unfolding tr tr' Let_def by simp_all
  with tr tr' show ?thesis
    by (simp add: prod_eq_iff mockCommits_def show_nat_digit digit_def)
qed

text \<open>
  Two calls in which the parameter is present and is not passed to the log primitive:
  \<^verbatim>\<open>gitLog({ maxCount: 0 })\<close> and \<^verbatim>\<open>gitLog({ file: "" })\<close> both call it with no option
  set.
\<close>

theorem log_options_dropped:
  "calls (snd (observe (gitLog (getGit (posix ''/repo'') (\<lambda>path. recording (MockGitProvider (\<lambda>m. False))))
        (Some 0) None None) ()))
     = [CheckIsRepo, Log \<lparr>lo_maxCount = None, lo_file = None\<rparr>]
   \<and> lo_maxCount \<lparr>lo_maxCount = None, lo_file = None\<rparr> \<noteq> Some 0
   \<and> calls (snd (observe (gitLog (getGit (posix ''/repo'') (\<lambda>path. recording (MockGitProvider (\<lambda>m. False))))
        None (Some []) None) ()))
     = [CheckIsRepo, Log \<lparr>lo_maxCount = None, lo_file = None\<rparr>]
   \<and> lo_file \<lparr>lo_maxCount = None, lo_file = None\<rparr> \<noteq> Some []"
  by (simp add: gitLog_def eval_defs)

section \<open>Failure envelopes\<close>




end
